theory Spec2Isabelle
  imports Complex_Main "HOL-Library.Word" "HOL-Library.Sublist"
begin

section \<open>JavaScript strings\<close>

text \<open>
  A JavaScript string is a sequence of 16-bit code units; \<open>length\<close> counts code units.
  \<open>lit\<close> writes an ASCII literal of the source as such a sequence.
\<close>

type_synonym jsstring = "16 word list"

definition lit :: "string \<Rightarrow> jsstring" where
  "lit s = map of_char s"

text \<open>
  \<open>String.prototype.trim\<close> strips the ECMAScript WhiteSpace and LineTerminator code
  points from both ends: TAB, LF, VT, FF, CR, SP, NBSP, U+1680, U+2000..U+200A, U+2028,
  U+2029, U+202F, U+205F, U+3000 and U+FEFF.
\<close>

definition js_whitespace :: "16 word \<Rightarrow> bool" where
  "js_whitespace c \<longleftrightarrow>
     c = 0x0009 \<or> c = 0x000A \<or> c = 0x000B \<or> c = 0x000C \<or> c = 0x000D \<or> c = 0x0020 \<or>
     c = 0x00A0 \<or> c = 0x1680 \<or> (0x2000 \<le> c \<and> c \<le> 0x200A) \<or> c = 0x2028 \<or>
     c = 0x2029 \<or> c = 0x202F \<or> c = 0x205F \<or> c = 0x3000 \<or> c = 0xFEFF"

definition trim :: "jsstring \<Rightarrow> jsstring" where
  "trim s = rev (dropWhile js_whitespace (rev (dropWhile js_whitespace s)))"

text \<open>\<open>s.startsWith(p)\<close> and \<open>s.includes(p)\<close> (a contiguous occurrence of \<open>p\<close>).\<close>

definition startsWith :: "jsstring \<Rightarrow> jsstring \<Rightarrow> bool" where
  "startsWith s p = prefix p s"

fun includes_js :: "jsstring \<Rightarrow> jsstring \<Rightarrow> bool" where
  "includes_js [] p = (p = [])"
| "includes_js (c # cs) p = (prefix p (c # cs) \<or> includes_js cs p)"


section \<open>The client's error rewriting (app/page.tsx)\<close>

definition quota_text :: jsstring where
  "quota_text = lit ''API quota unavailable. Add billing or switch to a key with credits.''"

text \<open>The apostrophe of the second text is U+2019 in the source.\<close>

definition render_text :: jsstring where
  "render_text = lit ''Couldn'' @ [0x2019] @ lit ''t render the diagram. Please Generate again.''"

definition unexpected_text :: jsstring where
  "unexpected_text = lit ''Server returned an unexpected response. Please try again.''"

definition cleanApiError :: "jsstring \<Rightarrow> jsstring" where
  "cleanApiError msg =
     (if includes_js msg (lit ''insufficient_quota'') then quota_text
      else if includes_js msg (lit ''Model did not return'') then render_text
      else if startsWith (trim msg) (lit ''{'') then unexpected_text
      else msg)"

text \<open>The message \<open>generate\<close> throws itself when the narrative is blank.\<close>

definition blank_narrative_message :: jsstring where
  "blank_narrative_message = lit ''Please paste or select a preset narrative first.''"


text \<open>
  What \<open>generate\<close> throws on a failed call is the text of the answer, the serialised
  error object: here for the marker failure and for the validation failure.
\<close>

definition retry_error_text :: jsstring where
  "retry_error_text =
     lit ''{'' @ [0x22] @ lit ''error'' @ [0x22] @ lit '':'' @ [0x22]
     @ lit ''Model did not return valid Mermaid. Try again.'' @ [0x22] @ lit ''}''"

definition validation_error_text :: jsstring where
  "validation_error_text =
     lit ''{'' @ [0x22] @ lit ''error'' @ [0x22] @ lit '':'' @ [0x22]
     @ lit ''Please provide a longer narrative.'' @ [0x22] @ lit ''}''"


section \<open>JavaScript values, exceptions and the runtime\<close>

text \<open>
  The values a JSON document parses to, and \<open>undefined\<close>, which a property read yields
  for a missing property. An object is the list of its own properties as they stand
  after parsing, each name once. Numbers are kept as rationals: the handlers never
  compute with them, they only test truthiness and type and convert to a string.
\<close>

datatype jsval =
    JUndefined
  | JNull
  | JBool bool
  | JNum rat
  | JStr jsstring
  | JArr "jsval list"
  | JObj "(jsstring \<times> jsval) list"

text \<open>
  A thrown value: an \<open>Error\<close> instance with its name, its message and its further own
  properties, or any other value.
\<close>

datatype thrown =
    ErrorObj (err_name: jsstring) (err_message: jsstring) (err_props: "(jsstring \<times> jsval) list")
  | NonError jsval

text \<open>
  What the handlers take from the JavaScript engine and its library without defining it:
  \<open>JSON.parse\<close>, the decimal form of a number, and the message texts of the
  \<open>TypeError\<close> raised when a property of \<open>null\<close> or \<open>undefined\<close> is destructured or read.
\<close>

record runtime =
  JSON_parse :: "jsstring \<Rightarrow> thrown + jsval"
  Number_toString :: "rat \<Rightarrow> jsstring"
  destructure_message :: "jsval \<Rightarrow> jsstring \<Rightarrow> jsstring"
  read_message :: "jsval \<Rightarrow> jsstring \<Rightarrow> jsstring"

fun truthy :: "jsval \<Rightarrow> bool" where
  "truthy JUndefined = False"
| "truthy JNull = False"
| "truthy (JBool b) = b"
| "truthy (JNum n) = (n \<noteq> 0)"
| "truthy (JStr s) = (s \<noteq> [])"
| "truthy (JArr xs) = True"
| "truthy (JObj kvs) = True"

fun typeof :: "jsval \<Rightarrow> jsstring" where
  "typeof JUndefined = lit ''undefined''"
| "typeof JNull = lit ''object''"
| "typeof (JBool b) = lit ''boolean''"
| "typeof (JNum n) = lit ''number''"
| "typeof (JStr s) = lit ''string''"
| "typeof (JArr xs) = lit ''object''"
| "typeof (JObj kvs) = lit ''object''"

fun nullish :: "jsval \<Rightarrow> bool" where
  "nullish JUndefined = True"
| "nullish JNull = True"
| "nullish v = False"

text \<open>The string a value of type string holds (used only behind a \<open>typeof\<close> test).\<close>

fun string_value :: "jsval \<Rightarrow> jsstring" where
  "string_value (JStr s) = s"
| "string_value v = []"

text \<open>
  \<open>v.k\<close> on a value that is neither \<open>null\<close> nor \<open>undefined\<close>, for the property names the
  handlers read (flow, choices, message, content, mermaid, notes, response, data): none
  is an array index or a member of a built-in prototype, so only an object has them.
\<close>

fun get_prop :: "jsval \<Rightarrow> jsstring \<Rightarrow> jsval" where
  "get_prop (JObj kvs) k = (case map_of kvs k of Some v \<Rightarrow> v | None \<Rightarrow> JUndefined)"
| "get_prop v k = JUndefined"

text \<open>\<open>v[0]\<close> on a value that is neither \<open>null\<close> nor \<open>undefined\<close>.\<close>

fun get_index0 :: "jsval \<Rightarrow> jsval" where
  "get_index0 (JArr xs) = (case xs of [] \<Rightarrow> JUndefined | x # rest \<Rightarrow> x)"
| "get_index0 (JStr s) = (case s of [] \<Rightarrow> JUndefined | c # rest \<Rightarrow> JStr [c])"
| "get_index0 (JObj kvs) = (case map_of kvs (lit ''0'') of Some v \<Rightarrow> v | None \<Rightarrow> JUndefined)"
| "get_index0 v = JUndefined"

text \<open>Optional chaining \<open>v?.k\<close> and \<open>v?.[0]\<close>, and \<open>a ?? b\<close>, \<open>a || b\<close>.\<close>

definition opt_get :: "jsval \<Rightarrow> jsstring \<Rightarrow> jsval" where
  "opt_get v k = (if nullish v then JUndefined else get_prop v k)"

definition opt_index0 :: "jsval \<Rightarrow> jsval" where
  "opt_index0 v = (if nullish v then JUndefined else get_index0 v)"

definition nullish_coalesce :: "jsval \<Rightarrow> jsval \<Rightarrow> jsval" where
  "nullish_coalesce a b = (if nullish a then b else a)"

definition js_or :: "jsval \<Rightarrow> jsval \<Rightarrow> jsval" where
  "js_or a b = (if truthy a then a else b)"

text \<open>Reading and destructuring a property raise a \<open>TypeError\<close> on \<open>null\<close> and \<open>undefined\<close>.\<close>

definition TypeError :: "jsstring \<Rightarrow> thrown" where
  "TypeError msg = ErrorObj (lit ''TypeError'') msg []"

definition read_prop :: "runtime \<Rightarrow> jsval \<Rightarrow> jsstring \<Rightarrow> thrown + jsval" where
  "read_prop rt v k =
     (if nullish v then Inl (TypeError (read_message rt v k)) else Inr (get_prop v k))"

definition destructure :: "runtime \<Rightarrow> jsval \<Rightarrow> jsstring \<Rightarrow> thrown + jsval" where
  "destructure rt v k =
     (if nullish v then Inl (TypeError (destructure_message rt v k)) else Inr (get_prop v k))"

text \<open>
  The abstract operation ToString, applied by template literals and by \<open>JSON.parse\<close>
  and \<open>String\<close> to their argument. An array joins its elements with commas, \<open>null\<close> and
  \<open>undefined\<close> elements as empty strings. An object is taken to inherit \<open>toString\<close>:
  one with an own property of that name makes the operation throw instead.
\<close>

fun join_comma :: "jsstring list \<Rightarrow> jsstring" where
  "join_comma [] = []"
| "join_comma [x] = x"
| "join_comma (x # y # ys) = x @ lit '','' @ join_comma (y # ys)"

fun to_string :: "runtime \<Rightarrow> jsval \<Rightarrow> jsstring" where
  "to_string rt JUndefined = lit ''undefined''"
| "to_string rt JNull = lit ''null''"
| "to_string rt (JBool b) = (if b then lit ''true'' else lit ''false'')"
| "to_string rt (JNum n) = Number_toString rt n"
| "to_string rt (JStr s) = s"
| "to_string rt (JArr xs) =
     join_comma (map (\<lambda>x. if nullish x then [] else to_string rt x) xs)"
| "to_string rt (JObj kvs) = lit ''[object Object]''"

text \<open>The decimal form of a natural number, as a template literal prints a status code.\<close>

fun decimal :: "nat \<Rightarrow> jsstring" where
  "decimal n =
     (if n < 10 then [0x30 + of_nat n] else decimal (n div 10) @ [0x30 + of_nat (n mod 10)])"

declare decimal.simps [simp del]


section \<open>Requests, responses and the upstream service\<close>

text \<open>
  The incoming request is the outcome of reading its body; \<open>req.json()\<close> reads the body
  and parses it, and rejects with what either step throws.
\<close>

record request =
  req_body :: "thrown + jsstring"

definition req_json :: "runtime \<Rightarrow> request \<Rightarrow> thrown + jsval" where
  "req_json rt req = (case req_body req of Inl err \<Rightarrow> Inl err | Inr s \<Rightarrow> JSON_parse rt s)"

record env =
  OPENAI_API_KEY :: "jsstring option"
  OPENAI_MODEL :: "jsstring option"

text \<open>
  An outbound \<open>fetch\<close> call: \<open>payload\<close> is the object handed to \<open>JSON.stringify\<close>.
  The upstream answer is a status and the outcome of reading its body; \<open>resp.ok\<close> holds
  for the statuses 200 to 299.
\<close>

record fetch_request =
  url :: jsstring
  http_method :: jsstring
  headers :: "(jsstring \<times> jsstring) list"
  payload :: jsval

record upstream_response =
  up_status :: nat
  up_body :: "thrown + jsstring"

type_synonym fetcher = "fetch_request \<Rightarrow> thrown + upstream_response"

definition up_ok :: "upstream_response \<Rightarrow> bool" where
  "up_ok resp = (200 \<le> up_status resp \<and> up_status resp \<le> 299)"

definition resp_text :: "upstream_response \<Rightarrow> thrown + jsstring" where
  "resp_text resp = up_body resp"

definition resp_json :: "runtime \<Rightarrow> upstream_response \<Rightarrow> thrown + jsval" where
  "resp_json rt resp = (case up_body resp of Inl err \<Rightarrow> Inl err | Inr s \<Rightarrow> JSON_parse rt s)"

text \<open>The handler's answer: \<open>NextResponse.json(obj, { status })\<close>, status 200 by default.\<close>

record http_response =
  status :: nat
  json :: jsval

definition NextResponse_json :: "jsval \<Rightarrow> nat \<Rightarrow> http_response" where
  "NextResponse_json obj st = \<lparr>status = st, json = obj\<rparr>"

definition error_body :: "jsstring \<Rightarrow> jsval" where
  "error_body msg = JObj [(lit ''error'', JStr msg)]"

definition result_body :: "jsstring \<Rightarrow> jsstring \<Rightarrow> jsval" where
  "result_body mermaid notes = JObj [(lit ''mermaid'', JStr mermaid), (lit ''notes'', JStr notes)]"


section \<open>The generation endpoint (payments-diagram/app/api/flow/route.ts)\<close>

definition validation_message :: jsstring where
  "validation_message = lit ''Please provide a longer narrative.''"

definition retry_message :: jsstring where
  "retry_message = lit ''Model did not return valid Mermaid. Try again.''"

definition grammar_marker :: jsstring where
  "grammar_marker = lit ''sequenceDiagram''"

text \<open>
  \<open>!flow || typeof flow !== "string" || flow.trim().length < 10\<close>. The third operand is
  evaluated only for a string; for any other value the second one has decided already.
\<close>

definition flow_rejected :: "jsval \<Rightarrow> bool" where
  "flow_rejected flow =
     (if \<not> truthy flow then True
      else if typeof flow \<noteq> lit ''string'' then True
      else length (trim (string_value flow)) < 10)"

definition system_prompt :: jsstring where
  "system_prompt = lit ''You convert payments narratives into accurate Mermaid sequence diagrams.''"

text \<open>
  The template literal of the user prompt: line feeds are U+000A, the quotes U+0022, and
  the source's escaped backslash is the single code unit U+005C before the letter n.
\<close>

definition user_prompt :: "jsstring \<Rightarrow> jsstring" where
  "user_prompt flow =
     [0x0A] @ lit ''Lifelines: Customer, Merchant, PSP, Network, Issuer.''
     @ [0x0A] @ lit ''Include: authorization, capture, settlement, refund or void if relevant.''
     @ [0x0A] @ lit ''Return JSON only: { '' @ [0x22] @ lit ''mermaid'' @ [0x22] @ lit '': ''
     @ [0x22] @ lit ''...'' @ [0x22] @ lit '', '' @ [0x22] @ lit ''notes'' @ [0x22] @ lit '': ''
     @ [0x22] @ lit ''- bullet'' @ [0x5C] @ lit ''n- bullet'' @ [0x22] @ lit '' }''
     @ [0x0A, 0x0A] @ lit ''Narrative:''
     @ [0x0A] @ lit ''<<<'' @ flow @ lit ''>>>''"

text \<open>A template literal prints a missing environment variable as \<open>undefined\<close>.\<close>

definition bearer :: "jsstring option \<Rightarrow> jsstring" where
  "bearer key = lit ''Bearer '' @ (case key of None \<Rightarrow> lit ''undefined'' | Some k \<Rightarrow> k)"

text \<open>\<open>process.env.OPENAI_MODEL || dflt\<close>: an unset or empty variable gives the default.\<close>

definition model_or :: "jsstring option \<Rightarrow> jsstring \<Rightarrow> jsstring" where
  "model_or m dflt = (case m of None \<Rightarrow> dflt | Some n \<Rightarrow> if n = [] then dflt else n)"

definition chat_payload :: "jsstring \<Rightarrow> jsstring \<Rightarrow> jsval" where
  "chat_payload model user =
     JObj [(lit ''model'', JStr model),
           (lit ''temperature'', JNum (2 / 10)),
           (lit ''messages'',
              JArr [JObj [(lit ''role'', JStr (lit ''system'')), (lit ''content'', JStr system_prompt)],
                    JObj [(lit ''role'', JStr (lit ''user'')), (lit ''content'', JStr user)]]),
           (lit ''response_format'', JObj [(lit ''type'', JStr (lit ''json_object''))])]"

definition chat_request :: "env \<Rightarrow> jsstring \<Rightarrow> jsstring \<Rightarrow> fetch_request" where
  "chat_request ev dflt user =
     \<lparr>url = lit ''https://api.openai.com/v1/chat/completions'',
      http_method = lit ''POST'',
      headers = [(lit ''Authorization'', bearer (OPENAI_API_KEY ev)),
                 (lit ''Content-Type'', lit ''application/json'')],
      payload = chat_payload (model_or (OPENAI_MODEL ev) dflt) user\<rparr>"

text \<open>\<open>data?.choices?.[0]?.message?.content ?? "{}"\<close>\<close>

definition content_of :: "jsval \<Rightarrow> jsval" where
  "content_of data =
     nullish_coalesce
       (opt_get (opt_get (opt_index0 (opt_get data (lit ''choices''))) (lit ''message''))
          (lit ''content''))
       (JStr (lit ''{}''))"

text \<open>\<open>typeof parsed.k === "string" ? parsed.k : ""\<close>, the read raising on \<open>null\<close>.\<close>

definition text_field :: "runtime \<Rightarrow> jsval \<Rightarrow> jsstring \<Rightarrow> thrown + jsstring" where
  "text_field rt parsed k =
     (case read_prop rt parsed k of
        Inl err \<Rightarrow> Inl err
      | Inr v \<Rightarrow> Inr (if typeof v = lit ''string'' then string_value v else []))"

text \<open>The last step of the handler: the marker check on the extracted diagram text.\<close>

definition check_marker :: "jsstring \<Rightarrow> jsstring \<Rightarrow> http_response" where
  "check_marker mermaid notes =
     (if \<not> startsWith mermaid grammar_marker
      then NextResponse_json (error_body retry_message) 500
      else NextResponse_json (result_body mermaid notes) 200)"

text \<open>
  The body of the \<open>try\<close> block: the value returned or the value thrown, together with
  the upstream calls made up to that point.
\<close>

definition POST_try ::
  "runtime \<Rightarrow> env \<Rightarrow> fetcher \<Rightarrow> request \<Rightarrow> (thrown + http_response) \<times> fetch_request list" where
  "POST_try rt ev fetch req =
     (case req_json rt req of
        Inl err \<Rightarrow> (Inl err, [])
      | Inr body \<Rightarrow>
     (case destructure rt body (lit ''flow'') of
        Inl err \<Rightarrow> (Inl err, [])
      | Inr flow \<Rightarrow>
     if flow_rejected flow
     then (Inr (NextResponse_json (error_body validation_message) 400), [])
     else
       let call = chat_request ev (lit ''gpt-3.5-turbo'') (user_prompt (to_string rt flow)) in
     (case fetch call of
        Inl err \<Rightarrow> (Inl err, [call])
      | Inr resp \<Rightarrow>
     if \<not> up_ok resp
     then (case resp_text resp of
             Inl err \<Rightarrow> (Inl err, [call])
           | Inr t \<Rightarrow> (Inr (NextResponse_json (error_body t) 500), [call]))
     else
     (case resp_json rt resp of
        Inl err \<Rightarrow> (Inl err, [call])
      | Inr data \<Rightarrow>
     (case JSON_parse rt (to_string rt (content_of data)) of
        Inl err \<Rightarrow> (Inl err, [call])
      | Inr parsed \<Rightarrow>
     (case text_field rt parsed (lit ''mermaid'') of
        Inl err \<Rightarrow> (Inl err, [call])
      | Inr mermaid \<Rightarrow>
     (case text_field rt parsed (lit ''notes'') of
        Inl err \<Rightarrow> (Inl err, [call])
      | Inr notes \<Rightarrow> (Inr (check_marker mermaid notes), [call]))))))))"

text \<open>The \<open>catch\<close> block.\<close>

definition catch_response :: "thrown \<Rightarrow> http_response" where
  "catch_response err =
     (let message = (case err of ErrorObj name msg props \<Rightarrow> msg
                               | NonError v \<Rightarrow> lit ''Unknown error'')
      in NextResponse_json (error_body message) 500)"

record 'c outcome =
  response :: http_response
  upstream_calls :: "'c list"

definition POST :: "runtime \<Rightarrow> env \<Rightarrow> fetcher \<Rightarrow> request \<Rightarrow> fetch_request outcome" where
  "POST rt ev fetch req =
     (case POST_try rt ev fetch req of
        (Inl err, calls) \<Rightarrow> \<lparr>response = catch_response err, upstream_calls = calls\<rparr>
      | (Inr r, calls) \<Rightarrow> \<lparr>response = r, upstream_calls = calls\<rparr>)"


section \<open>The variant with an environment check and a guarded parse (unnamed/part_001)\<close>

definition missing_key_message :: jsstring where
  "missing_key_message = lit ''Missing OPENAI_API_KEY in .env.local''"

definition invalid_json_message :: jsstring where
  "invalid_json_message = lit ''Model did not return valid JSON.''"

text \<open>\<open>!process.env.OPENAI_API_KEY\<close>: the variable is unset or empty.\<close>

definition key_missing :: "env \<Rightarrow> bool" where
  "key_missing ev = (case OPENAI_API_KEY ev of None \<Rightarrow> True | Some k \<Rightarrow> k = [])"

text \<open>\<open>req.json().catch(() => ({}))\<close>\<close>

definition req_json_or_empty :: "runtime \<Rightarrow> request \<Rightarrow> jsval" where
  "req_json_or_empty rt req = (case req_json rt req of Inl err \<Rightarrow> JObj [] | Inr v \<Rightarrow> v)"

definition openai_error_text :: "nat \<Rightarrow> jsstring \<Rightarrow> jsstring" where
  "openai_error_text st t = lit ''OpenAI error ('' @ decimal st @ lit ''): '' @ t"

definition POST_part_001_try ::
  "runtime \<Rightarrow> env \<Rightarrow> fetcher \<Rightarrow> request \<Rightarrow> (thrown + http_response) \<times> fetch_request list" where
  "POST_part_001_try rt ev fetch req =
     (if key_missing ev
      then (Inr (NextResponse_json (error_body missing_key_message) 500), [])
      else
     (case destructure rt (req_json_or_empty rt req) (lit ''flow'') of
        Inl err \<Rightarrow> (Inl err, [])
      | Inr flow \<Rightarrow>
     if flow_rejected flow
     then (Inr (NextResponse_json (error_body validation_message) 400), [])
     else
       let call = chat_request ev (lit ''gpt-4o-mini'') (user_prompt (to_string rt flow)) in
     (case fetch call of
        Inl err \<Rightarrow> (Inl err, [call])
      | Inr resp \<Rightarrow>
     if \<not> up_ok resp
     then (case resp_text resp of
             Inl err \<Rightarrow> (Inl err, [call])
           | Inr t \<Rightarrow>
               (Inr (NextResponse_json (error_body (openai_error_text (up_status resp) t)) 500),
                [call]))
     else
     (case resp_json rt resp of
        Inl err \<Rightarrow> (Inl err, [call])
      | Inr data \<Rightarrow>
     (case JSON_parse rt (to_string rt (content_of data)) of
        Inl err \<Rightarrow> (Inr (NextResponse_json (error_body invalid_json_message) 500), [call])
      | Inr parsed \<Rightarrow>
     (case text_field rt parsed (lit ''mermaid'') of
        Inl err \<Rightarrow> (Inl err, [call])
      | Inr mermaid \<Rightarrow>
     (case text_field rt parsed (lit ''notes'') of
        Inl err \<Rightarrow> (Inl err, [call])
      | Inr notes \<Rightarrow> (Inr (check_marker mermaid notes), [call]))))))))"

definition POST_part_001 ::
  "runtime \<Rightarrow> env \<Rightarrow> fetcher \<Rightarrow> request \<Rightarrow> fetch_request outcome" where
  "POST_part_001 rt ev fetch req =
     (case POST_part_001_try rt ev fetch req of
        (Inl err, calls) \<Rightarrow> \<lparr>response = catch_response err, upstream_calls = calls\<rparr>
      | (Inr r, calls) \<Rightarrow> \<lparr>response = r, upstream_calls = calls\<rparr>)"


section \<open>The variant on the vendor's client library (unnamed/part_002)\<close>

text \<open>
  \<open>client.chat.completions.create(params)\<close> resolves to the parsed completion or
  throws; the call is recorded with the key the client was built with.
\<close>

record sdk_request =
  api_key :: jsstring
  params :: jsval

type_synonym sdk_create = "sdk_request \<Rightarrow> thrown + jsval"

text \<open>\<open>err?.k\<close> on a caught value, and \<open>String(err)\<close>.\<close>

fun err_get :: "thrown \<Rightarrow> jsstring \<Rightarrow> jsval" where
  "err_get (ErrorObj name msg props) k =
     (if k = lit ''message'' then JStr msg
      else if k = lit ''name'' then JStr name
      else (case map_of props k of Some v \<Rightarrow> v | None \<Rightarrow> JUndefined))"
| "err_get (NonError v) k = opt_get v k"

fun err_string :: "runtime \<Rightarrow> thrown \<Rightarrow> jsstring" where
  "err_string rt (ErrorObj name msg props) =
     (if name = [] then msg else if msg = [] then name else name @ lit '': '' @ msg)"
| "err_string rt (NonError v) = to_string rt v"

definition POST_part_002_try ::
  "runtime \<Rightarrow> env \<Rightarrow> sdk_create \<Rightarrow> request \<Rightarrow> (thrown + http_response) \<times> sdk_request list" where
  "POST_part_002_try rt ev create req =
     (if key_missing ev
      then (Inr (NextResponse_json (error_body (lit ''Missing OPENAI_API_KEY'')) 500), [])
      else
     (case read_prop rt (req_json_or_empty rt req) (lit ''flow'') of
        Inl err \<Rightarrow> (Inl err, [])
      | Inr v \<Rightarrow>
       let flow = (if typeof v = lit ''string'' then trim (string_value v) else []) in
     if length flow < 10
     then (Inr (NextResponse_json (error_body validation_message) 400), [])
     else
       let call = \<lparr>api_key = (case OPENAI_API_KEY ev of None \<Rightarrow> [] | Some k \<Rightarrow> k),
                   params = chat_payload (model_or (OPENAI_MODEL ev) (lit ''gpt-4o-mini''))
                              (user_prompt flow)\<rparr> in
     (case create call of
        Inl err \<Rightarrow> (Inl err, [call])
      | Inr resp \<Rightarrow>
     (case JSON_parse rt (to_string rt (content_of resp)) of
        Inl err \<Rightarrow> (Inr (NextResponse_json (error_body invalid_json_message) 500), [call])
      | Inr parsed \<Rightarrow>
     (case text_field rt parsed (lit ''mermaid'') of
        Inl err \<Rightarrow> (Inl err, [call])
      | Inr mermaid \<Rightarrow>
     (case text_field rt parsed (lit ''notes'') of
        Inl err \<Rightarrow> (Inl err, [call])
      | Inr notes \<Rightarrow>
     if \<not> startsWith mermaid grammar_marker
     then (Inr (NextResponse_json (error_body (lit ''Model did not return valid Mermaid.'')) 500),
           [call])
     else (Inr (NextResponse_json (result_body mermaid notes) 200), [call])))))))"

text \<open>
  Its \<open>catch\<close> block: \<open>err?.response?.data || err?.message || String(err)\<close> goes into a
  second field, and the error text is fixed.
\<close>

definition catch_response_part_002 :: "runtime \<Rightarrow> thrown \<Rightarrow> http_response" where
  "catch_response_part_002 rt err =
     (let detail = js_or (js_or (opt_get (err_get err (lit ''response'')) (lit ''data''))
                                (err_get err (lit ''message'')))
                         (JStr (err_string rt err))
      in NextResponse_json
           (JObj [(lit ''error'', JStr (lit ''Server error'')), (lit ''detail'', detail)]) 500)"

definition POST_part_002 ::
  "runtime \<Rightarrow> env \<Rightarrow> sdk_create \<Rightarrow> request \<Rightarrow> sdk_request outcome" where
  "POST_part_002 rt ev create req =
     (case POST_part_002_try rt ev create req of
        (Inl err, calls) \<Rightarrow> \<lparr>response = catch_response_part_002 rt err, upstream_calls = calls\<rparr>
      | (Inr r, calls) \<Rightarrow> \<lparr>response = r, upstream_calls = calls\<rparr>)"


section \<open>The extraction as the specification words it\<close>

text \<open>
  Follows the specification, not the source: a field that is missing or not a string is
  replaced by the empty string. The argument is the field as looked up in the object.
\<close>

definition text_or_empty :: "jsval option \<Rightarrow> jsstring" where
  "text_or_empty field = (case field of Some (JStr s) \<Rightarrow> s | _ \<Rightarrow> [])"


section \<open>Concrete requests, upstream answers and a runtime\<close>

definition SyntaxError :: "jsstring \<Rightarrow> thrown" where
  "SyntaxError msg = ErrorObj (lit ''SyntaxError'') msg []"

text \<open>The document \<open>null\<close>.\<close>

definition doc_null :: jsstring where
  "doc_null =
     lit ''null''"

definition val_null :: jsval where
  "val_null =
     JNull"

definition doc_empty_object :: jsstring where
  "doc_empty_object =
     lit ''{}''"

definition val_empty_object :: jsval where
  "val_empty_object =
     JObj []"

text \<open>A request whose narrative has nine code units.\<close>

definition doc_short_flow :: jsstring where
  "doc_short_flow =
     lit ''{'' @ [0x22] @ lit ''flow'' @ [0x22] @ lit '':'' @ [0x22] @ lit ''too short'' @
       [0x22] @ lit ''}''"

definition val_short_flow :: jsval where
  "val_short_flow =
     JObj [(lit ''flow'', JStr (lit ''too short''))]"

text \<open>A request with an acceptable narrative.\<close>

definition doc_flow :: jsstring where
  "doc_flow =
     lit ''{'' @ [0x22] @ lit ''flow'' @ [0x22] @ lit '':'' @ [0x22] @
       lit ''Customer pays the merchant by card.'' @ [0x22] @ lit ''}''"

definition val_flow :: jsval where
  "val_flow =
     JObj [(lit ''flow'', JStr (lit ''Customer pays the merchant by card.''))]"

text \<open>A well-formed result, and the completion that carries it as its message content.\<close>

definition doc_diagram :: jsstring where
  "doc_diagram =
     lit ''{'' @ [0x22] @ lit ''mermaid'' @ [0x22] @ lit '':'' @ [0x22] @
       lit ''sequenceDiagram'' @ [0x5C] @ lit ''nCustomer->>Merchant: pay'' @ [0x22] @
       lit '','' @ [0x22] @ lit ''notes'' @ [0x22] @ lit '':'' @ [0x22] @ lit ''- a'' @
       [0x5C] @ lit ''n- b'' @ [0x22] @ lit ''}''"

definition val_diagram :: jsval where
  "val_diagram =
     JObj [(lit ''mermaid'', JStr (lit ''sequenceDiagram'' @ [0x0A] @
       lit ''Customer->>Merchant: pay'')), (lit ''notes'', JStr (lit ''- a'' @ [0x0A] @
       lit ''- b''))]"

definition doc_completion_diagram :: jsstring where
  "doc_completion_diagram =
     lit ''{'' @ [0x22] @ lit ''choices'' @ [0x22] @ lit '':[{'' @ [0x22] @ lit ''message''
       @ [0x22] @ lit '':{'' @ [0x22] @ lit ''content'' @ [0x22] @ lit '':'' @ [0x22] @
       lit ''{'' @ [0x5C, 0x22] @ lit ''mermaid'' @ [0x5C, 0x22] @ lit '':'' @ [0x5C, 0x22]
       @ lit ''sequenceDiagram'' @ [0x5C, 0x5C] @ lit ''nCustomer->>Merchant: pay'' @
       [0x5C, 0x22] @ lit '','' @ [0x5C, 0x22] @ lit ''notes'' @ [0x5C, 0x22] @ lit '':'' @
       [0x5C, 0x22] @ lit ''- a'' @ [0x5C, 0x5C] @ lit ''n- b'' @ [0x5C, 0x22] @ lit ''}''
       @ [0x22] @ lit ''}}]}''"

definition val_completion_diagram :: jsval where
  "val_completion_diagram =
     JObj [(lit ''choices'', JArr [JObj [(lit ''message'', JObj [(lit ''content'',
       JStr doc_diagram)])]])]"

text \<open>A result in another diagram grammar.\<close>

definition doc_graph :: jsstring where
  "doc_graph =
     lit ''{'' @ [0x22] @ lit ''mermaid'' @ [0x22] @ lit '':'' @ [0x22] @
       lit ''graph TD;A-->B'' @ [0x22] @ lit '','' @ [0x22] @ lit ''notes'' @ [0x22] @
       lit '':'' @ [0x22] @ lit ''- a'' @ [0x22] @ lit ''}''"

definition val_graph :: jsval where
  "val_graph =
     JObj [(lit ''mermaid'', JStr (lit ''graph TD;A-->B'')), (lit ''notes'',
       JStr (lit ''- a''))]"

definition doc_completion_graph :: jsstring where
  "doc_completion_graph =
     lit ''{'' @ [0x22] @ lit ''choices'' @ [0x22] @ lit '':[{'' @ [0x22] @ lit ''message''
       @ [0x22] @ lit '':{'' @ [0x22] @ lit ''content'' @ [0x22] @ lit '':'' @ [0x22] @
       lit ''{'' @ [0x5C, 0x22] @ lit ''mermaid'' @ [0x5C, 0x22] @ lit '':'' @ [0x5C, 0x22]
       @ lit ''graph TD;A-->B'' @ [0x5C, 0x22] @ lit '','' @ [0x5C, 0x22] @ lit ''notes'' @
       [0x5C, 0x22] @ lit '':'' @ [0x5C, 0x22] @ lit ''- a'' @ [0x5C, 0x22] @ lit ''}'' @
       [0x22] @ lit ''}}]}''"

definition val_completion_graph :: jsval where
  "val_completion_graph =
     JObj [(lit ''choices'', JArr [JObj [(lit ''message'', JObj [(lit ''content'',
       JStr doc_graph)])]])]"

text \<open>A result whose diagram has a space before the marker.\<close>

definition doc_indented :: jsstring where
  "doc_indented =
     lit ''{'' @ [0x22] @ lit ''mermaid'' @ [0x22] @ lit '':'' @ [0x22] @
       lit '' sequenceDiagram'' @ [0x5C] @ lit ''nCustomer->>Merchant: pay'' @ [0x22] @
       lit '','' @ [0x22] @ lit ''notes'' @ [0x22] @ lit '':'' @ [0x22] @ lit ''- a'' @
       [0x22] @ lit ''}''"

definition val_indented :: jsval where
  "val_indented =
     JObj [(lit ''mermaid'', JStr (lit '' sequenceDiagram'' @ [0x0A] @
       lit ''Customer->>Merchant: pay'')), (lit ''notes'', JStr (lit ''- a''))]"

definition doc_completion_indented :: jsstring where
  "doc_completion_indented =
     lit ''{'' @ [0x22] @ lit ''choices'' @ [0x22] @ lit '':[{'' @ [0x22] @ lit ''message''
       @ [0x22] @ lit '':{'' @ [0x22] @ lit ''content'' @ [0x22] @ lit '':'' @ [0x22] @
       lit ''{'' @ [0x5C, 0x22] @ lit ''mermaid'' @ [0x5C, 0x22] @ lit '':'' @ [0x5C, 0x22]
       @ lit '' sequenceDiagram'' @ [0x5C, 0x5C] @ lit ''nCustomer->>Merchant: pay'' @
       [0x5C, 0x22] @ lit '','' @ [0x5C, 0x22] @ lit ''notes'' @ [0x5C, 0x22] @ lit '':'' @
       [0x5C, 0x22] @ lit ''- a'' @ [0x5C, 0x22] @ lit ''}'' @ [0x22] @ lit ''}}]}''"

definition val_completion_indented :: jsval where
  "val_completion_indented =
     JObj [(lit ''choices'', JArr [JObj [(lit ''message'', JObj [(lit ''content'',
       JStr doc_indented)])]])]"

text \<open>A result whose notes are a list, not a string.\<close>

definition doc_notes_list :: jsstring where
  "doc_notes_list =
     lit ''{'' @ [0x22] @ lit ''mermaid'' @ [0x22] @ lit '':'' @ [0x22] @
       lit ''sequenceDiagram'' @ [0x5C] @ lit ''nCustomer->>Merchant: pay'' @ [0x22] @
       lit '','' @ [0x22] @ lit ''notes'' @ [0x22] @ lit '':['' @ [0x22] @ lit ''a'' @
       [0x22] @ lit '']}''"

definition val_notes_list :: jsval where
  "val_notes_list =
     JObj [(lit ''mermaid'', JStr (lit ''sequenceDiagram'' @ [0x0A] @
       lit ''Customer->>Merchant: pay'')), (lit ''notes'', JArr [JStr (lit ''a'')])]"

definition doc_completion_notes_list :: jsstring where
  "doc_completion_notes_list =
     lit ''{'' @ [0x22] @ lit ''choices'' @ [0x22] @ lit '':[{'' @ [0x22] @ lit ''message''
       @ [0x22] @ lit '':{'' @ [0x22] @ lit ''content'' @ [0x22] @ lit '':'' @ [0x22] @
       lit ''{'' @ [0x5C, 0x22] @ lit ''mermaid'' @ [0x5C, 0x22] @ lit '':'' @ [0x5C, 0x22]
       @ lit ''sequenceDiagram'' @ [0x5C, 0x5C] @ lit ''nCustomer->>Merchant: pay'' @
       [0x5C, 0x22] @ lit '','' @ [0x5C, 0x22] @ lit ''notes'' @ [0x5C, 0x22] @ lit '':[''
       @ [0x5C, 0x22] @ lit ''a'' @ [0x5C, 0x22] @ lit '']}'' @ [0x22] @ lit ''}}]}''"

definition val_completion_notes_list :: jsval where
  "val_completion_notes_list =
     JObj [(lit ''choices'', JArr [JObj [(lit ''message'', JObj [(lit ''content'',
       JStr doc_notes_list)])]])]"

text \<open>Completions whose content is prose, is \<open>null\<close>, and is an object.\<close>

definition doc_completion_prose :: jsstring where
  "doc_completion_prose =
     lit ''{'' @ [0x22] @ lit ''choices'' @ [0x22] @ lit '':[{'' @ [0x22] @ lit ''message''
       @ [0x22] @ lit '':{'' @ [0x22] @ lit ''content'' @ [0x22] @ lit '':'' @ [0x22] @
       lit ''Here is your diagram'' @ [0x22] @ lit ''}}]}''"

definition val_completion_prose :: jsval where
  "val_completion_prose =
     JObj [(lit ''choices'', JArr [JObj [(lit ''message'', JObj [(lit ''content'',
       JStr (lit ''Here is your diagram''))])]])]"

definition doc_completion_null :: jsstring where
  "doc_completion_null =
     lit ''{'' @ [0x22] @ lit ''choices'' @ [0x22] @ lit '':[{'' @ [0x22] @ lit ''message''
       @ [0x22] @ lit '':{'' @ [0x22] @ lit ''content'' @ [0x22] @ lit '':null}}]}''"

definition val_completion_null :: jsval where
  "val_completion_null =
     JObj [(lit ''choices'', JArr [JObj [(lit ''message'', JObj [(lit ''content'',
       JNull)])]])]"

definition doc_completion_object :: jsstring where
  "doc_completion_object =
     lit ''{'' @ [0x22] @ lit ''choices'' @ [0x22] @ lit '':[{'' @ [0x22] @ lit ''message''
       @ [0x22] @ lit '':{'' @ [0x22] @ lit ''content'' @ [0x22] @ lit '':{}}}]}''"

definition val_completion_object :: jsval where
  "val_completion_object =
     JObj [(lit ''choices'', JArr [JObj [(lit ''message'', JObj [(lit ''content'',
       JObj [])])]])]"

text \<open>
  A fragment of \<open>JSON.parse\<close>: it parses the documents above as the library does and is
  applied to nothing else but texts that are not JSON, for which it throws.
\<close>

definition demo_parse :: "jsstring \<Rightarrow> thrown + jsval" where
  "demo_parse s =
     (if s = doc_null then Inr val_null
      else if s = doc_empty_object then Inr val_empty_object
      else if s = doc_short_flow then Inr val_short_flow
      else if s = doc_flow then Inr val_flow
      else if s = doc_diagram then Inr val_diagram
      else if s = doc_completion_diagram then Inr val_completion_diagram
      else if s = doc_graph then Inr val_graph
      else if s = doc_completion_graph then Inr val_completion_graph
      else if s = doc_indented then Inr val_indented
      else if s = doc_completion_indented then Inr val_completion_indented
      else if s = doc_notes_list then Inr val_notes_list
      else if s = doc_completion_notes_list then Inr val_completion_notes_list
      else if s = doc_completion_prose then Inr val_completion_prose
      else if s = doc_completion_null then Inr val_completion_null
      else if s = doc_completion_object then Inr val_completion_object
      else Inl (SyntaxError (lit ''Unexpected token in JSON'')))"

text \<open>
  A runtime around that parser. The documents above hold no numbers, so the number
  printer is never applied; it prints the integer part of a non-negative number.
\<close>

definition demo_runtime :: runtime where
  "demo_runtime =
     \<lparr>JSON_parse = demo_parse,
      Number_toString = (\<lambda>n. decimal (nat \<lfloor>n\<rfloor>)),
      destructure_message = (\<lambda>v k. lit ''Cannot destructure property '' @ k @ lit '' of null''),
      read_message = (\<lambda>v k. lit ''Cannot read properties of null, reading '' @ k)\<rparr>"

definition demo_env :: env where
  "demo_env = \<lparr>OPENAI_API_KEY = Some (lit ''sk-demo''), OPENAI_MODEL = None\<rparr>"

definition request_of :: "jsstring \<Rightarrow> request" where
  "request_of s = \<lparr>req_body = Inr s\<rparr>"

text \<open>An upstream that answers every call alike, and one that cannot be reached.\<close>

definition answering :: "nat \<Rightarrow> jsstring \<Rightarrow> fetcher" where
  "answering st s = (\<lambda>call. Inr \<lparr>up_status = st, up_body = Inr s\<rparr>)"

definition unreachable :: fetcher where
  "unreachable = (\<lambda>call. Inl (TypeError (lit ''fetch failed'')))"


text \<open>The body of an upstream quota refusal, sent with status 429.\<close>

definition quota_refusal :: jsstring where
  "quota_refusal =
     lit ''{'' @ [0x22] @ lit ''error'' @ [0x22] @ lit '':{'' @ [0x22] @ lit ''type'' @ [0x22]
     @ lit '':'' @ [0x22] @ lit ''insufficient_quota'' @ [0x22] @ lit ''}}''"


section \<open>Properties of the string operations\<close>

lemma includes_js_iff_sublist: "includes_js s p \<longleftrightarrow> sublist p s"
  by (induction s) (auto simp: sublist_Cons_right)

lemma includes_js_self: "includes_js s s"
  by (simp add: includes_js_iff_sublist)

lemma includes_js_append: "includes_js (a @ s @ b) s"
  by (simp add: includes_js_iff_sublist)


section \<open>Properties of the value operations\<close>

lemma typeof_string_iff: "typeof v = lit ''string'' \<longleftrightarrow> (\<exists>s. v = JStr s)"
  by (cases v) (auto simp: lit_def)

lemma flow_rejected_iff: "flow_rejected v \<longleftrightarrow> (\<forall>s. v = JStr s \<longrightarrow> length (trim s) < 10)"
  by (cases v) (auto simp: flow_rejected_def lit_def trim_def)

lemma destructure_present: "\<not> nullish v \<Longrightarrow> destructure rt v k = Inr (get_prop v k)"
  by (simp add: destructure_def)

lemma read_prop_present: "\<not> nullish v \<Longrightarrow> read_prop rt v k = Inr (get_prop v k)"
  by (simp add: read_prop_def)

lemma text_field_present:
  "\<not> nullish v \<Longrightarrow>
   text_field rt v k = Inr (case get_prop v k of JStr s \<Rightarrow> s | _ \<Rightarrow> [])"
  by (cases "get_prop v k") (simp_all add: text_field_def read_prop_def lit_def)


section \<open>Evaluation of the concrete inputs\<close>

lemmas doc_defs =
  doc_null_def val_null_def doc_empty_object_def val_empty_object_def
  doc_short_flow_def val_short_flow_def doc_flow_def val_flow_def
  doc_diagram_def val_diagram_def doc_completion_diagram_def val_completion_diagram_def
  doc_graph_def val_graph_def doc_completion_graph_def val_completion_graph_def
  doc_indented_def val_indented_def doc_completion_indented_def val_completion_indented_def
  doc_notes_list_def val_notes_list_def doc_completion_notes_list_def
  val_completion_notes_list_def doc_completion_prose_def val_completion_prose_def
  doc_completion_null_def val_completion_null_def doc_completion_object_def
  val_completion_object_def

lemmas demo_defs =
  demo_runtime_def demo_parse_def demo_env_def request_of_def answering_def unreachable_def
  SyntaxError_def TypeError_def req_json_def resp_json_def resp_text_def up_ok_def lit_def

lemmas handler_defs =
  POST_def POST_try_def destructure_def read_prop_def text_field_def flow_rejected_def
  trim_def js_whitespace_def content_of_def opt_get_def opt_index0_def nullish_coalesce_def
  check_marker_def startsWith_def grammar_marker_def catch_response_def NextResponse_json_def
  error_body_def result_body_def validation_message_def retry_message_def

lemma demo_parse_null: "req_json demo_runtime (request_of doc_null) = Inr JNull"
  by (simp add: demo_defs doc_defs)

lemma demo_key_present: "\<not> key_missing demo_env"
  by (simp add: key_missing_def demo_env_def lit_def)

lemma demo_parse_form:
  "req_json demo_runtime (request_of (lit ''flow=hello'')) =
     Inl (SyntaxError (lit ''Unexpected token in JSON''))"
  by (simp add: demo_defs doc_defs)

lemma demo_parse_short: "req_json demo_runtime (request_of doc_short_flow) = Inr val_short_flow"
  by (simp add: demo_defs doc_defs)

lemma demo_parse_flow: "req_json demo_runtime (request_of doc_flow) = Inr val_flow"
  by (simp add: demo_defs doc_defs)


lemma demo_flow_field:
  "get_prop val_flow (lit ''flow'') = JStr (lit ''Customer pays the merchant by card.'')"
  by (simp add: val_flow_def)

lemma demo_flow_length: "10 \<le> length (trim (lit ''Customer pays the merchant by card.''))"
  by (simp add: trim_def js_whitespace_def lit_def)

lemma demo_answer: "answering st s call = Inr \<lparr>up_status = st, up_body = Inr s\<rparr>"
  by (simp add: answering_def)

lemma demo_json_diagram:
  "resp_json demo_runtime \<lparr>up_status = st, up_body = Inr doc_completion_diagram\<rparr> =
     Inr val_completion_diagram"
  by (simp add: demo_defs doc_defs)

lemma demo_content_diagram:
  "JSON_parse demo_runtime (to_string demo_runtime (content_of val_completion_diagram)) =
     Inr val_diagram"
  by (simp add: val_completion_diagram_def content_of_def opt_get_def opt_index0_def
      nullish_coalesce_def lit_def)
     (simp add: demo_defs doc_defs)

lemma demo_json_graph:
  "resp_json demo_runtime \<lparr>up_status = st, up_body = Inr doc_completion_graph\<rparr> =
     Inr val_completion_graph"
  by (simp add: demo_defs doc_defs)

lemma demo_content_graph:
  "JSON_parse demo_runtime (to_string demo_runtime (content_of val_completion_graph)) =
     Inr val_graph"
  by (simp add: val_completion_graph_def content_of_def opt_get_def opt_index0_def
      nullish_coalesce_def lit_def)
     (simp add: demo_defs doc_defs)

lemma demo_json_indented:
  "resp_json demo_runtime \<lparr>up_status = st, up_body = Inr doc_completion_indented\<rparr> =
     Inr val_completion_indented"
  by (simp add: demo_defs doc_defs)

lemma demo_content_indented:
  "JSON_parse demo_runtime (to_string demo_runtime (content_of val_completion_indented)) =
     Inr val_indented"
  by (simp add: val_completion_indented_def content_of_def opt_get_def opt_index0_def
      nullish_coalesce_def lit_def)
     (simp add: demo_defs doc_defs)

lemma demo_json_notes_list:
  "resp_json demo_runtime \<lparr>up_status = st, up_body = Inr doc_completion_notes_list\<rparr> =
     Inr val_completion_notes_list"
  by (simp add: demo_defs doc_defs)

lemma demo_content_notes_list:
  "JSON_parse demo_runtime (to_string demo_runtime (content_of val_completion_notes_list)) =
     Inr val_notes_list"
  by (simp add: val_completion_notes_list_def content_of_def opt_get_def opt_index0_def
      nullish_coalesce_def lit_def)
     (simp add: demo_defs doc_defs)

lemma demo_json_prose:
  "resp_json demo_runtime \<lparr>up_status = st, up_body = Inr doc_completion_prose\<rparr> =
     Inr val_completion_prose"
  by (simp add: demo_defs doc_defs)

lemma demo_content_prose:
  "content_of val_completion_prose = JStr (lit ''Here is your diagram'')"
  "JSON_parse demo_runtime (lit ''Here is your diagram'') =
     Inl (SyntaxError (lit ''Unexpected token in JSON''))"
  by (simp add: val_completion_prose_def content_of_def opt_get_def opt_index0_def
      nullish_coalesce_def lit_def)
     (simp add: demo_defs doc_defs)

lemma demo_json_null:
  "resp_json demo_runtime \<lparr>up_status = st, up_body = Inr doc_completion_null\<rparr> =
     Inr val_completion_null"
  by (simp add: demo_defs doc_defs)

lemma demo_json_object:
  "resp_json demo_runtime \<lparr>up_status = st, up_body = Inr doc_completion_object\<rparr> =
     Inr val_completion_object"
  by (simp add: demo_defs doc_defs)

lemma demo_content_object:
  "content_of val_completion_object = JObj []"
  "to_string demo_runtime (JObj []) = lit ''[object Object]''"
  "JSON_parse demo_runtime (lit ''[object Object]'') =
     Inl (SyntaxError (lit ''Unexpected token in JSON''))"
  by (simp add: val_completion_object_def content_of_def opt_get_def opt_index0_def
      nullish_coalesce_def lit_def)
     (simp_all add: demo_defs doc_defs)

lemma demo_parse_empty_object: "JSON_parse demo_runtime (lit ''{}'') = Inr (JObj [])"
  by (simp add: demo_defs doc_defs)

lemma demo_ok: "200 \<le> st \<Longrightarrow> st \<le> 299 \<Longrightarrow> up_ok \<lparr>up_status = st, up_body = b\<rparr>"
  by (simp add: up_ok_def)

lemma demo_flow_present: "\<not> nullish val_flow"
  by (simp add: val_flow_def)


lemma demo_content_null:
  "opt_get (opt_get (opt_index0 (opt_get val_completion_null (lit ''choices'')))
      (lit ''message'')) (lit ''content'') = JNull"
  by (simp add: val_completion_null_def opt_get_def opt_index0_def lit_def)


lemma quota_refusal_has_marker: "includes_js quota_refusal (lit ''insufficient_quota'')"
  by (simp add: quota_refusal_def lit_def)

lemma retry_error_text_facts:
  "\<not> includes_js retry_error_text (lit ''insufficient_quota'')"
  "includes_js retry_error_text (lit ''Model did not return'')"
  by (simp_all add: retry_error_text_def lit_def)

lemma validation_error_text_facts:
  "\<not> includes_js validation_error_text (lit ''insufficient_quota'')"
  "\<not> includes_js validation_error_text (lit ''Model did not return'')"
  "prefix (lit ''{'') (trim validation_error_text)"
  by (simp_all add: validation_error_text_def lit_def trim_def js_whitespace_def)

lemma blank_narrative_message_facts:
  "\<not> includes_js blank_narrative_message (lit ''insufficient_quota'')"
  "\<not> includes_js blank_narrative_message (lit ''Model did not return'')"
  "\<not> prefix (lit ''{'') (trim blank_narrative_message)"
  by (simp_all add: blank_narrative_message_def lit_def trim_def js_whitespace_def)


section \<open>The endpoint, phase by phase\<close>

lemma POST_rejects:
  assumes "req_json rt req = Inr body" and "\<not> nullish body"
    and "flow_rejected (get_prop body (lit ''flow''))"
  shows "POST rt ev fetch req =
           \<lparr>response = NextResponse_json (error_body validation_message) 400, upstream_calls = []\<rparr>"
  using assms by (simp add: POST_def POST_try_def destructure_def)

lemma long_flow_accepted: "10 \<le> length (trim flow) \<Longrightarrow> \<not> flow_rejected (JStr flow)"
  by (simp add: flow_rejected_iff)

lemma POST_fetch_fails:
  assumes "req_json rt req = Inr body" and "\<not> nullish body"
    and "get_prop body (lit ''flow'') = JStr flow" and "10 \<le> length (trim flow)"
    and "fetch (chat_request ev (lit ''gpt-3.5-turbo'') (user_prompt flow)) = Inl err"
  shows "POST_try rt ev fetch req =
           (Inl err, [chat_request ev (lit ''gpt-3.5-turbo'') (user_prompt flow)])"
  using assms by (simp add: POST_try_def destructure_def long_flow_accepted)

lemma POST_upstream_refuses:
  assumes "req_json rt req = Inr body" and "\<not> nullish body"
    and "get_prop body (lit ''flow'') = JStr flow" and "10 \<le> length (trim flow)"
    and "fetch (chat_request ev (lit ''gpt-3.5-turbo'') (user_prompt flow)) = Inr resp"
    and "\<not> up_ok resp" and "up_body resp = Inr t"
  shows "POST rt ev fetch req =
           \<lparr>response = NextResponse_json (error_body t) 500,
            upstream_calls = [chat_request ev (lit ''gpt-3.5-turbo'') (user_prompt flow)]\<rparr>"
  using assms by (simp add: POST_def POST_try_def destructure_def long_flow_accepted resp_text_def)

lemma POST_content_unparseable:
  assumes "req_json rt req = Inr body" and "\<not> nullish body"
    and "get_prop body (lit ''flow'') = JStr flow" and "10 \<le> length (trim flow)"
    and "fetch (chat_request ev (lit ''gpt-3.5-turbo'') (user_prompt flow)) = Inr resp"
    and "up_ok resp" and "resp_json rt resp = Inr data"
    and "JSON_parse rt (to_string rt (content_of data)) = Inl err"
  shows "POST_try rt ev fetch req =
           (Inl err, [chat_request ev (lit ''gpt-3.5-turbo'') (user_prompt flow)])"
  using assms by (simp add: POST_try_def destructure_def long_flow_accepted)

lemma POST_checks_marker:
  assumes "req_json rt req = Inr body" and "\<not> nullish body"
    and "get_prop body (lit ''flow'') = JStr flow" and "10 \<le> length (trim flow)"
    and "fetch (chat_request ev (lit ''gpt-3.5-turbo'') (user_prompt flow)) = Inr resp"
    and "up_ok resp" and "resp_json rt resp = Inr data"
    and "JSON_parse rt (to_string rt (content_of data)) = Inr parsed"
    and "\<not> nullish parsed"
  shows "POST rt ev fetch req =
           \<lparr>response = check_marker (case get_prop parsed (lit ''mermaid'') of JStr s \<Rightarrow> s | _ \<Rightarrow> [])
                                     (case get_prop parsed (lit ''notes'') of JStr s \<Rightarrow> s | _ \<Rightarrow> []),
            upstream_calls = [chat_request ev (lit ''gpt-3.5-turbo'') (user_prompt flow)]\<rparr>"
  using assms
  by (simp add: POST_def POST_try_def destructure_def long_flow_accepted text_field_present)


lemma POST_request_unparseable:
  "req_json rt req = Inl err \<Longrightarrow> POST_try rt ev fetch req = (Inl err, [])"
  by (simp add: POST_try_def)

lemma POST_body_nullish:
  "req_json rt req = Inr body \<Longrightarrow> nullish body \<Longrightarrow>
   POST_try rt ev fetch req = (Inl (TypeError (destructure_message rt body (lit ''flow''))), [])"
  by (simp add: POST_try_def destructure_def)

lemma POST_parsed_nullish:
  assumes "req_json rt req = Inr body" and "\<not> nullish body"
    and "get_prop body (lit ''flow'') = JStr flow" and "10 \<le> length (trim flow)"
    and "fetch (chat_request ev (lit ''gpt-3.5-turbo'') (user_prompt flow)) = Inr resp"
    and "up_ok resp" and "resp_json rt resp = Inr data"
    and "JSON_parse rt (to_string rt (content_of data)) = Inr parsed"
    and "nullish parsed"
  shows "POST_try rt ev fetch req =
           (Inl (TypeError (read_message rt parsed (lit ''mermaid''))),
            [chat_request ev (lit ''gpt-3.5-turbo'') (user_prompt flow)])"
  using assms
  by (simp add: POST_try_def destructure_def long_flow_accepted text_field_def read_prop_def)

lemma catch_response_non_error:
  "catch_response (NonError v) =
     \<lparr>status = 500, json = JObj [(lit ''error'', JStr (lit ''Unknown error''))]\<rparr>"
  by (simp add: catch_response_def NextResponse_json_def error_body_def)

lemma POST_accepts:
  assumes "req_json rt req = Inr body" and "\<not> nullish body"
    and "get_prop body (lit ''flow'') = JStr flow" and "10 \<le> length (trim flow)"
  shows "upstream_calls (POST rt ev fetch req) =
           [chat_request ev (lit ''gpt-3.5-turbo'') (user_prompt flow)]"
  using assms
  by (simp add: POST_def POST_try_def destructure_def long_flow_accepted Let_def
      split: sum.splits)


section \<open>Input validation\<close>

text \<open>
  What the validation guarantees. When the request body parses to a value other than
  \<open>null\<close> and its \<open>flow\<close> field is absent, is not a string, or is a string whose
  trimmed length is below 10, the endpoint answers 400 with the validation message and
  makes no upstream call; the answer does not mention the upstream at all.
\<close>

theorem flow_missing_or_short_rejected:
  assumes "req_json rt req = Inr body" and "\<not> nullish body"
    and "\<And>s. get_prop body (lit ''flow'') = JStr s \<Longrightarrow> length (trim s) < 10"
  shows "POST rt ev fetch req =
           \<lparr>response = \<lparr>status = 400,
                         json = JObj [(lit ''error'', JStr (lit ''Please provide a longer narrative.''))]\<rparr>,
            upstream_calls = []\<rparr>"
proof -
  have "flow_rejected (get_prop body (lit ''flow''))"
    using assms(3) by (simp add: flow_rejected_iff)
  from POST_rejects [OF assms(1,2) this] show ?thesis
    by (simp add: NextResponse_json_def error_body_def validation_message_def)
qed

text \<open>The narrative of nine code units, with an upstream that cannot even be reached.\<close>

theorem flow_missing_or_short_rejected_witness:
  "req_json demo_runtime (request_of doc_short_flow) = Inr val_short_flow
   \<and> get_prop val_short_flow (lit ''flow'') = JStr (lit ''too short'')
   \<and> length (trim (lit ''too short'')) = 9
   \<and> POST demo_runtime demo_env unreachable (request_of doc_short_flow) =
       \<lparr>response = \<lparr>status = 400,
                     json = JObj [(lit ''error'', JStr (lit ''Please provide a longer narrative.''))]\<rparr>,
        upstream_calls = []\<rparr>"
proof -
  have p: "req_json demo_runtime (request_of doc_short_flow) = Inr val_short_flow"
    by (rule demo_parse_short)
  have f: "get_prop val_short_flow (lit ''flow'') = JStr (lit ''too short'')"
    by (simp add: val_short_flow_def)
  have l: "length (trim (lit ''too short'')) = 9"
    by (simp add: trim_def js_whitespace_def lit_def)
  have n: "\<not> nullish val_short_flow"
    by (simp add: val_short_flow_def)
  have "POST demo_runtime demo_env unreachable (request_of doc_short_flow) =
       \<lparr>response = \<lparr>status = 400,
                     json = JObj [(lit ''error'', JStr (lit ''Please provide a longer narrative.''))]\<rparr>,
        upstream_calls = []\<rparr>"
    using flow_missing_or_short_rejected [OF p n, of demo_env unreachable] f l by simp
  with p f l show ?thesis by simp
qed

text \<open>
  The body \<open>null\<close> is a JSON request without a \<open>flow\<close> field: the destructuring throws,
  and the \<open>catch\<close> block answers 500 with the engine's message.
\<close>

theorem null_body_answered_500:
  "req_json demo_runtime (request_of doc_null) = Inr JNull
   \<and> get_prop JNull (lit ''flow'') = JUndefined
   \<and> response (POST demo_runtime demo_env unreachable (request_of doc_null)) =
       \<lparr>status = 500,
        json = JObj [(lit ''error'', JStr (lit ''Cannot destructure property flow of null''))]\<rparr>"
  by (simp add: demo_parse_null handler_defs)
     (simp add: demo_runtime_def TypeError_def lit_def)


text \<open>
  Claim C1 does not hold of this handler: \<open>req.json()\<close> is not guarded, so a request
  whose body is not JSON, and so has no \<open>flow\<close> field, makes it throw, and the \<open>catch\<close>
  block answers 500 with the parser's message. The second variant, which replaces such
  a body by an empty object, answers the same request 400 with the validation message.
\<close>

theorem unparseable_body_answered_500:
  "req_json demo_runtime (request_of (lit ''flow=hello'')) =
     Inl (SyntaxError (lit ''Unexpected token in JSON''))
   \<and> POST demo_runtime demo_env unreachable (request_of (lit ''flow=hello'')) =
       \<lparr>response = \<lparr>status = 500,
                     json = JObj [(lit ''error'', JStr (lit ''Unexpected token in JSON''))]\<rparr>,
        upstream_calls = []\<rparr>
   \<and> POST_part_001 demo_runtime demo_env unreachable (request_of (lit ''flow=hello'')) =
       \<lparr>response = \<lparr>status = 400,
                     json = JObj [(lit ''error'', JStr (lit ''Please provide a longer narrative.''))]\<rparr>,
        upstream_calls = []\<rparr>"
proof -
  have r: "POST demo_runtime demo_env unreachable (request_of (lit ''flow=hello'')) =
       \<lparr>response = \<lparr>status = 500,
                     json = JObj [(lit ''error'', JStr (lit ''Unexpected token in JSON''))]\<rparr>,
        upstream_calls = []\<rparr>"
    using POST_request_unparseable [OF demo_parse_form, of demo_env unreachable]
    by (simp add: POST_def catch_response_def NextResponse_json_def error_body_def
        SyntaxError_def)
  have s: "POST_part_001 demo_runtime demo_env unreachable (request_of (lit ''flow=hello'')) =
       \<lparr>response = \<lparr>status = 400,
                     json = JObj [(lit ''error'', JStr (lit ''Please provide a longer narrative.''))]\<rparr>,
        upstream_calls = []\<rparr>"
    using demo_key_present demo_parse_form
    by (simp add: POST_part_001_def POST_part_001_try_def req_json_or_empty_def destructure_def
        flow_rejected_def NextResponse_json_def error_body_def validation_message_def)
  from demo_parse_form r s show ?thesis
    by simp
qed


section \<open>The validated result\<close>

text \<open>
  Claim C2. When the request is accepted, the upstream call answers with a success
  status, its body parses, and the message content parses to a value whose \<open>mermaid\<close>
  field is a string starting with \<open>sequenceDiagram\<close> and whose \<open>notes\<close> field is a
  string, the endpoint answers 200 with exactly these two strings.
\<close>

theorem valid_result_echoed:
  assumes "req_json rt req = Inr body" and "\<not> nullish body"
    and "get_prop body (lit ''flow'') = JStr flow" and "10 \<le> length (trim flow)"
    and "fetch (chat_request ev (lit ''gpt-3.5-turbo'') (user_prompt flow)) = Inr resp"
    and "up_ok resp" and "resp_json rt resp = Inr data"
    and "JSON_parse rt (to_string rt (content_of data)) = Inr parsed"
    and "get_prop parsed (lit ''mermaid'') = JStr m"
    and "prefix (lit ''sequenceDiagram'') m"
    and "get_prop parsed (lit ''notes'') = JStr n"
  shows "response (POST rt ev fetch req) =
           \<lparr>status = 200, json = JObj [(lit ''mermaid'', JStr m), (lit ''notes'', JStr n)]\<rparr>"
proof -
  have "\<not> nullish parsed"
    using assms(9) by (cases parsed) auto
  from POST_checks_marker [where fetch = fetch, OF assms(1-8) this] assms(9-11) show ?thesis
    by (simp add: check_marker_def startsWith_def grammar_marker_def NextResponse_json_def
        result_body_def)
qed

text \<open>The completion that carries a sequence diagram and two bullet notes.\<close>

theorem valid_result_echoed_witness:
  "JSON_parse demo_runtime (to_string demo_runtime (content_of val_completion_diagram)) =
     Inr val_diagram
   \<and> response (POST demo_runtime demo_env (answering 200 doc_completion_diagram)
                 (request_of doc_flow)) =
       \<lparr>status = 200,
        json = JObj [(lit ''mermaid'',
                      JStr (lit ''sequenceDiagram'' @ [0x0A] @ lit ''Customer->>Merchant: pay'')),
                     (lit ''notes'', JStr (lit ''- a'' @ [0x0A] @ lit ''- b''))]\<rparr>"
proof -
  have ok: "up_ok \<lparr>up_status = 200, up_body = Inr doc_completion_diagram\<rparr>"
    by (simp add: up_ok_def)
  have nn: "\<not> nullish val_flow"
    by (simp add: val_flow_def)
  have m: "get_prop val_diagram (lit ''mermaid'') =
             JStr (lit ''sequenceDiagram'' @ [0x0A] @ lit ''Customer->>Merchant: pay'')"
    and n: "get_prop val_diagram (lit ''notes'') = JStr (lit ''- a'' @ [0x0A] @ lit ''- b'')"
    by (simp_all add: val_diagram_def lit_def)
  have p: "prefix (lit ''sequenceDiagram'')
             (lit ''sequenceDiagram'' @ [0x0A] @ lit ''Customer->>Merchant: pay'')"
    by simp
  from valid_result_echoed [where fetch = "answering 200 doc_completion_diagram" and ev = demo_env,
      OF demo_parse_flow nn demo_flow_field demo_flow_length demo_answer ok demo_json_diagram
        demo_content_diagram m p n]
    demo_content_diagram
  show ?thesis by simp
qed

text \<open>
  Claim C3. On the same path, when the parsed content is not \<open>null\<close> and its \<open>mermaid\<close>
  field is not a string that starts with \<open>sequenceDiagram\<close> (a missing field, another
  type, another grammar, or the marker behind leading white space), the endpoint answers
  500 with the retry message, whatever the \<open>notes\<close> field holds.
\<close>

theorem unmarked_diagram_rejected:
  assumes "req_json rt req = Inr body" and "\<not> nullish body"
    and "get_prop body (lit ''flow'') = JStr flow" and "10 \<le> length (trim flow)"
    and "fetch (chat_request ev (lit ''gpt-3.5-turbo'') (user_prompt flow)) = Inr resp"
    and "up_ok resp" and "resp_json rt resp = Inr data"
    and "JSON_parse rt (to_string rt (content_of data)) = Inr parsed"
    and "\<not> nullish parsed"
    and "\<And>m. get_prop parsed (lit ''mermaid'') = JStr m \<Longrightarrow> \<not> prefix (lit ''sequenceDiagram'') m"
  shows "response (POST rt ev fetch req) =
           \<lparr>status = 500,
            json = JObj [(lit ''error'', JStr (lit ''Model did not return valid Mermaid. Try again.''))]\<rparr>"
proof -
  have "\<not> startsWith (case get_prop parsed (lit ''mermaid'') of JStr s \<Rightarrow> s | _ \<Rightarrow> [])
            grammar_marker"
    using assms(10)
    by (cases "get_prop parsed (lit ''mermaid'')")
       (simp_all add: startsWith_def grammar_marker_def, simp_all add: lit_def)
  with POST_checks_marker [where fetch = fetch, OF assms(1-9)] show ?thesis
    by (simp add: check_marker_def NextResponse_json_def error_body_def retry_message_def)
qed

text \<open>A diagram with one space before the marker and well-formed notes.\<close>

theorem unmarked_diagram_rejected_witness:
  "get_prop val_indented (lit ''mermaid'') =
     JStr (lit '' sequenceDiagram'' @ [0x0A] @ lit ''Customer->>Merchant: pay'')
   \<and> get_prop val_indented (lit ''notes'') = JStr (lit ''- a'')
   \<and> response (POST demo_runtime demo_env (answering 200 doc_completion_indented)
                 (request_of doc_flow)) =
       \<lparr>status = 500,
        json = JObj [(lit ''error'', JStr (lit ''Model did not return valid Mermaid. Try again.''))]\<rparr>"
proof -
  have m: "get_prop val_indented (lit ''mermaid'') =
             JStr (lit '' sequenceDiagram'' @ [0x0A] @ lit ''Customer->>Merchant: pay'')"
    and n: "get_prop val_indented (lit ''notes'') = JStr (lit ''- a'')"
    and nn: "\<not> nullish val_indented"
    by (simp_all add: val_indented_def lit_def)
  have p: "\<not> prefix (lit ''sequenceDiagram'') m'"
    if "get_prop val_indented (lit ''mermaid'') = JStr m'" for m'
    using that by (simp add: m) (auto simp: lit_def)
  have ok: "up_ok \<lparr>up_status = 200, up_body = Inr doc_completion_indented\<rparr>"
    by (simp add: demo_ok)
  from unmarked_diagram_rejected [where fetch = "answering 200 doc_completion_indented" and ev = demo_env,
      OF demo_parse_flow demo_flow_present demo_flow_field demo_flow_length demo_answer ok
        demo_json_indented demo_content_indented nn p]
    m n
  show ?thesis by simp
qed

text \<open>The specification's scenario of a result in another grammar.\<close>

lemma graph_diagram_rejected:
  "response (POST demo_runtime demo_env (answering 200 doc_completion_graph) (request_of doc_flow)) =
     \<lparr>status = 500,
      json = JObj [(lit ''error'', JStr (lit ''Model did not return valid Mermaid. Try again.''))]\<rparr>"
proof -
  have ok: "up_ok \<lparr>up_status = 200, up_body = Inr doc_completion_graph\<rparr>"
    by (simp add: demo_ok)
  have n: "\<not> nullish val_graph"
    by (simp add: val_graph_def)
  from POST_checks_marker [where fetch = "answering 200 doc_completion_graph" and ev = demo_env,
      OF demo_parse_flow demo_flow_present demo_flow_field demo_flow_length demo_answer ok
        demo_json_graph demo_content_graph n]
  show ?thesis
    by (simp add: val_graph_def check_marker_def startsWith_def grammar_marker_def
        NextResponse_json_def error_body_def retry_message_def lit_def)
qed

text \<open>
  Claim C7. On the same path, when the content parses to an object, each of the two
  fields is extracted as the specification words it (the string, or the empty string
  when the field is missing or not a string), the extraction itself never throws, and
  the answer is the marker check applied to the two extracted texts.
\<close>

theorem fields_default_to_empty:
  assumes "req_json rt req = Inr body" and "\<not> nullish body"
    and "get_prop body (lit ''flow'') = JStr flow" and "10 \<le> length (trim flow)"
    and "fetch (chat_request ev (lit ''gpt-3.5-turbo'') (user_prompt flow)) = Inr resp"
    and "up_ok resp" and "resp_json rt resp = Inr data"
    and "JSON_parse rt (to_string rt (content_of data)) = Inr (JObj kvs)"
  shows "text_field rt (JObj kvs) (lit ''mermaid'') =
           Inr (text_or_empty (map_of kvs (lit ''mermaid'')))
       \<and> text_field rt (JObj kvs) (lit ''notes'') =
           Inr (text_or_empty (map_of kvs (lit ''notes'')))
       \<and> response (POST rt ev fetch req) =
           check_marker (text_or_empty (map_of kvs (lit ''mermaid'')))
                        (text_or_empty (map_of kvs (lit ''notes'')))"
proof -
  have e: "(case get_prop (JObj kvs) k of JStr s \<Rightarrow> s | _ \<Rightarrow> []) =
             text_or_empty (map_of kvs k)" for k
    by (simp add: text_or_empty_def split: option.splits jsval.splits)
  have n: "\<not> nullish (JObj kvs)"
    by simp
  have t: "text_field rt (JObj kvs) k = Inr (text_or_empty (map_of kvs k))" for k
    using text_field_present [OF n, of rt k] unfolding e .
  have "POST rt ev fetch req =
          \<lparr>response = check_marker (text_or_empty (map_of kvs (lit ''mermaid'')))
                                    (text_or_empty (map_of kvs (lit ''notes''))),
           upstream_calls = [chat_request ev (lit ''gpt-3.5-turbo'') (user_prompt flow)]\<rparr>"
    using POST_checks_marker [where fetch = fetch, OF assms n] unfolding e .
  with t show ?thesis
    by simp
qed

text \<open>Notes that are a list: the answer is 200, with empty notes.\<close>

theorem fields_default_to_empty_witness:
  "map_of [(lit ''mermaid'',
            JStr (lit ''sequenceDiagram'' @ [0x0A] @ lit ''Customer->>Merchant: pay'')),
           (lit ''notes'', JArr [JStr (lit ''a'')])] (lit ''notes'') = Some (JArr [JStr (lit ''a'')])
   \<and> response (POST demo_runtime demo_env (answering 200 doc_completion_notes_list)
                 (request_of doc_flow)) =
       \<lparr>status = 200,
        json = JObj [(lit ''mermaid'',
                      JStr (lit ''sequenceDiagram'' @ [0x0A] @ lit ''Customer->>Merchant: pay'')),
                     (lit ''notes'', JStr [])]\<rparr>"
proof -
  have ok: "up_ok \<lparr>up_status = 200, up_body = Inr doc_completion_notes_list\<rparr>"
    by (simp add: demo_ok)
  have v: "Inr val_notes_list =
             (Inr (JObj [(lit ''mermaid'',
                      JStr (lit ''sequenceDiagram'' @ [0x0A] @ lit ''Customer->>Merchant: pay'')),
                     (lit ''notes'', JArr [JStr (lit ''a'')])]) :: thrown + jsval)"
    by (simp add: val_notes_list_def)
  from fields_default_to_empty [where fetch = "answering 200 doc_completion_notes_list" and ev = demo_env,
      OF demo_parse_flow demo_flow_present demo_flow_field demo_flow_length demo_answer ok
        demo_json_notes_list demo_content_notes_list [unfolded v]]
  show ?thesis
    by (simp add: text_or_empty_def check_marker_def startsWith_def grammar_marker_def
        NextResponse_json_def result_body_def lit_def)
qed


section \<open>Upstream refusals\<close>

text \<open>
  Claim C5. When the request is accepted and the upstream call answers with a status
  outside 200..299 and the body \<open>t\<close>, the endpoint answers 500 and the text of its
  \<open>error\<close> field contains \<open>t\<close>.
\<close>

theorem upstream_refusal_surfaced:
  assumes "req_json rt req = Inr body" and "\<not> nullish body"
    and "get_prop body (lit ''flow'') = JStr flow" and "10 \<le> length (trim flow)"
    and "fetch (chat_request ev (lit ''gpt-3.5-turbo'') (user_prompt flow)) = Inr resp"
    and "up_status resp < 200 \<or> 299 < up_status resp" and "up_body resp = Inr t"
  shows "status (response (POST rt ev fetch req)) = 500 \<and>
         (\<exists>e. json (response (POST rt ev fetch req)) = JObj [(lit ''error'', JStr e)] \<and>
              sublist t e)"
proof -
  have "\<not> up_ok resp"
    using assms(6) by (auto simp: up_ok_def)
  from POST_upstream_refuses [where fetch = fetch, OF assms(1-5) this assms(7)] show ?thesis
    by (simp add: NextResponse_json_def error_body_def)
qed

text \<open>A quota refusal with status 429.\<close>

theorem upstream_refusal_surfaced_witness:
  "status (response (POST demo_runtime demo_env (answering 429 quota_refusal)
                       (request_of doc_flow))) = 500
   \<and> (\<exists>e. json (response (POST demo_runtime demo_env (answering 429 quota_refusal)
                             (request_of doc_flow))) = JObj [(lit ''error'', JStr e)]
          \<and> sublist quota_refusal e)"
proof -
  have s: "up_status \<lparr>up_status = 429, up_body = Inr quota_refusal\<rparr> < 200
           \<or> 299 < up_status \<lparr>up_status = 429, up_body = Inr quota_refusal\<rparr>"
    and b: "up_body \<lparr>up_status = 429, up_body = Inr quota_refusal\<rparr> = Inr quota_refusal"
    by simp_all
  show ?thesis
    by (rule upstream_refusal_surfaced [where fetch = "answering 429 quota_refusal",
          OF demo_parse_flow demo_flow_present demo_flow_field demo_flow_length demo_answer s b])
qed

text \<open>The answer to that refusal, in full: the error text is the upstream body.\<close>

lemma quota_refusal_answer:
  "response (POST demo_runtime demo_env (answering 429 quota_refusal) (request_of doc_flow)) =
     \<lparr>status = 500, json = JObj [(lit ''error'', JStr quota_refusal)]\<rparr>"
proof -
  have b: "up_body \<lparr>up_status = 429, up_body = Inr quota_refusal\<rparr> = Inr quota_refusal"
    and n: "\<not> up_ok \<lparr>up_status = 429, up_body = Inr quota_refusal\<rparr>"
    by (simp_all add: up_ok_def)
  from POST_upstream_refuses [where fetch = "answering 429 quota_refusal" and ev = demo_env,
      OF demo_parse_flow demo_flow_present demo_flow_field demo_flow_length demo_answer n b]
  show ?thesis
    by (simp add: NextResponse_json_def error_body_def)
qed


section \<open>Content that is not JSON, and content that is missing\<close>

text \<open>
  Whatever the runtime: when \<open>JSON.parse\<close> of the content throws an \<open>Error\<close>, the answer
  carries that error's message.
\<close>

lemma unguarded_parse_surfaces_parser_message:
  assumes "req_json rt req = Inr body" and "\<not> nullish body"
    and "get_prop body (lit ''flow'') = JStr flow" and "10 \<le> length (trim flow)"
    and "fetch (chat_request ev (lit ''gpt-3.5-turbo'') (user_prompt flow)) = Inr resp"
    and "up_ok resp" and "resp_json rt resp = Inr data"
    and "JSON_parse rt (to_string rt (content_of data)) = Inl (ErrorObj name msg props)"
  shows "response (POST rt ev fetch req) = \<lparr>status = 500, json = JObj [(lit ''error'', JStr msg)]\<rparr>"
  using POST_content_unparseable [where fetch = fetch, OF assms]
  by (simp add: POST_def catch_response_def NextResponse_json_def error_body_def)

text \<open>
  Claim C4 does not hold of this handler: \<open>JSON.parse\<close> of the content is not guarded,
  so prose content makes it throw and the \<open>catch\<close> block answers 500 with the parser's
  message, not with the fixed text (the two variants below do return the fixed text).
\<close>

theorem unparseable_content_gets_parser_message:
  "content_of val_completion_prose = JStr (lit ''Here is your diagram'')
   \<and> JSON_parse demo_runtime (lit ''Here is your diagram'') =
       Inl (SyntaxError (lit ''Unexpected token in JSON''))
   \<and> response (POST demo_runtime demo_env (answering 200 doc_completion_prose)
                 (request_of doc_flow)) =
       \<lparr>status = 500, json = JObj [(lit ''error'', JStr (lit ''Unexpected token in JSON''))]\<rparr>
   \<and> lit ''Unexpected token in JSON'' \<noteq> lit ''Model did not return valid JSON.''"
proof -
  have ok: "up_ok \<lparr>up_status = 200, up_body = Inr doc_completion_prose\<rparr>"
    by (simp add: demo_ok)
  have p: "JSON_parse demo_runtime (to_string demo_runtime (content_of val_completion_prose)) =
             Inl (SyntaxError (lit ''Unexpected token in JSON''))"
    by (simp add: demo_content_prose)
  from POST_content_unparseable [where fetch = "answering 200 doc_completion_prose"
      and ev = demo_env,
      OF demo_parse_flow demo_flow_present demo_flow_field demo_flow_length demo_answer ok
        demo_json_prose p]
    demo_content_prose
  show ?thesis
    by (simp add: POST_def catch_response_def NextResponse_json_def error_body_def
        SyntaxError_def)
       (simp add: lit_def)
qed

text \<open>
  Claim C10, as amended. On the accepted path with a success status, when
  \<open>choices[0].message.content\<close> of the parsed body is \<open>undefined\<close> or \<open>null\<close> and
  \<open>JSON.parse\<close> maps the text \<open>{}\<close> to the empty object, the content becomes the
  literal \<open>{}\<close> and the endpoint answers 500 with the retry message.
\<close>

theorem missing_content_gets_retry_error:
  assumes "req_json rt req = Inr body" and "\<not> nullish body"
    and "get_prop body (lit ''flow'') = JStr flow" and "10 \<le> length (trim flow)"
    and "fetch (chat_request ev (lit ''gpt-3.5-turbo'') (user_prompt flow)) = Inr resp"
    and "up_ok resp" and "resp_json rt resp = Inr data"
    and "nullish (opt_get (opt_get (opt_index0 (opt_get data (lit ''choices'')))
                     (lit ''message'')) (lit ''content''))"
    and "JSON_parse rt (lit ''{}'') = Inr (JObj [])"
  shows "content_of data = JStr (lit ''{}'')
       \<and> response (POST rt ev fetch req) =
           \<lparr>status = 500,
            json = JObj [(lit ''error'', JStr (lit ''Model did not return valid Mermaid. Try again.''))]\<rparr>"
proof -
  have c: "content_of data = JStr (lit ''{}'')"
    using assms(8) by (simp add: content_of_def nullish_coalesce_def)
  then have p: "JSON_parse rt (to_string rt (content_of data)) = Inr (JObj [])"
    using assms(9) by simp
  have n: "\<not> nullish (JObj [])"
    by simp
  from POST_checks_marker [where fetch = fetch, OF assms(1-7) p n] c show ?thesis
    by (simp add: check_marker_def startsWith_def grammar_marker_def NextResponse_json_def
        error_body_def retry_message_def lit_def)
qed

text \<open>A completion whose content is \<open>null\<close>.\<close>

theorem missing_content_gets_retry_error_witness:
  "opt_get (opt_get (opt_index0 (opt_get val_completion_null (lit ''choices'')))
      (lit ''message'')) (lit ''content'') = JNull
   \<and> content_of val_completion_null = JStr (lit ''{}'')
   \<and> response (POST demo_runtime demo_env (answering 200 doc_completion_null)
                 (request_of doc_flow)) =
       \<lparr>status = 500,
        json = JObj [(lit ''error'', JStr (lit ''Model did not return valid Mermaid. Try again.''))]\<rparr>"
proof -
  have ok: "up_ok \<lparr>up_status = 200, up_body = Inr doc_completion_null\<rparr>"
    by (simp add: demo_ok)
  have n: "nullish (opt_get (opt_get (opt_index0 (opt_get val_completion_null (lit ''choices'')))
                     (lit ''message'')) (lit ''content''))"
    by (simp add: demo_content_null)
  from missing_content_gets_retry_error [where fetch = "answering 200 doc_completion_null" and ev = demo_env,
      OF demo_parse_flow demo_flow_present demo_flow_field demo_flow_length demo_answer ok
        demo_json_null n demo_parse_empty_object]
    demo_content_null
  show ?thesis by simp
qed

text \<open>
  Claim C10 as stated fails: content that is an object is not a string, yet it is not
  replaced; \<open>JSON.parse\<close> receives the text \<open>[object Object]\<close> and throws, and the
  answer carries the parser's message.
\<close>

theorem object_content_gets_parser_message:
  "resp_json demo_runtime \<lparr>up_status = 200, up_body = Inr doc_completion_object\<rparr> =
     Inr val_completion_object
   \<and> opt_get (opt_get (opt_index0 (opt_get val_completion_object (lit ''choices'')))
        (lit ''message'')) (lit ''content'') = JObj []
   \<and> content_of val_completion_object = JObj []
   \<and> response (POST demo_runtime demo_env (answering 200 doc_completion_object)
                 (request_of doc_flow)) =
       \<lparr>status = 500, json = JObj [(lit ''error'', JStr (lit ''Unexpected token in JSON''))]\<rparr>"
proof -
  have ok: "up_ok \<lparr>up_status = 200, up_body = Inr doc_completion_object\<rparr>"
    by (simp add: demo_ok)
  have c: "opt_get (opt_get (opt_index0 (opt_get val_completion_object (lit ''choices'')))
        (lit ''message'')) (lit ''content'') = JObj []"
    by (simp add: val_completion_object_def opt_get_def opt_index0_def lit_def)
  have p: "JSON_parse demo_runtime (to_string demo_runtime (content_of val_completion_object)) =
             Inl (SyntaxError (lit ''Unexpected token in JSON''))"
    by (simp add: demo_content_object)
  from POST_content_unparseable [where fetch = "answering 200 doc_completion_object"
      and ev = demo_env,
      OF demo_parse_flow demo_flow_present demo_flow_field demo_flow_length demo_answer ok
        demo_json_object p]
    c demo_json_object demo_content_object(1)
  show ?thesis
    by (simp add: POST_def catch_response_def NextResponse_json_def error_body_def
        SyntaxError_def)
qed


section \<open>The shape of every answer\<close>

text \<open>
  Claim C6. Whatever the runtime, the environment, the upstream and the request, the
  answer is a 200 with exactly a \<open>mermaid\<close> and a \<open>notes\<close> string, or a 400 or a 500
  with exactly an \<open>error\<close> string.
\<close>

theorem response_shapes:
  "(\<exists>m n. response (POST rt ev fetch req) =
            \<lparr>status = 200, json = JObj [(lit ''mermaid'', JStr m), (lit ''notes'', JStr n)]\<rparr>)
   \<or> (\<exists>e. response (POST rt ev fetch req) = \<lparr>status = 400, json = JObj [(lit ''error'', JStr e)]\<rparr>)
   \<or> (\<exists>e. response (POST rt ev fetch req) = \<lparr>status = 500, json = JObj [(lit ''error'', JStr e)]\<rparr>)"
  by (auto simp: POST_def POST_try_def catch_response_def check_marker_def NextResponse_json_def
      error_body_def result_body_def Let_def split: sum.splits thrown.splits if_splits prod.splits)


section \<open>Exceptions\<close>

text \<open>
  Where the \<open>try\<close> block of the handler can throw: reading or parsing the request, the
  destructuring of a \<open>null\<close> body, the upstream call, reading or parsing its body,
  parsing the content, and reading a field of \<open>null\<close> content.
\<close>

lemma POST_try_throws_cases:
  assumes "fst (POST_try rt ev fetch req) = Inl err"
  shows "req_json rt req = Inl err
       \<or> (\<exists>body. req_json rt req = Inr body \<and> nullish body
                 \<and> err = TypeError (destructure_message rt body (lit ''flow'')))
       \<or> (\<exists>call. fetch call = Inl err)
       \<or> (\<exists>call resp. fetch call = Inr resp \<and> up_body resp = Inl err)
       \<or> (\<exists>call resp s. fetch call = Inr resp \<and> up_body resp = Inr s \<and> JSON_parse rt s = Inl err)
       \<or> (\<exists>call resp s data. fetch call = Inr resp \<and> up_body resp = Inr s
                 \<and> JSON_parse rt s = Inr data
                 \<and> JSON_parse rt (to_string rt (content_of data)) = Inl err)
       \<or> (\<exists>parsed. nullish parsed \<and> err = TypeError (read_message rt parsed (lit ''mermaid'')))"
  using assms
  by (auto simp: POST_try_def destructure_def text_field_def read_prop_def resp_text_def
      resp_json_def Let_def split: sum.splits if_splits)








section \<open>The client's error rewriting\<close>

text \<open>
  Claim C9, as amended. A message containing \<open>insufficient_quota\<close> becomes the quota
  text; any other message containing \<open>Model did not return\<close> becomes the render text;
  any other message whose trimmed text starts with an opening brace becomes the
  generic text; every remaining message is returned unchanged.
\<close>

theorem cleanApiError_cases:
  "(sublist (lit ''insufficient_quota'') a \<longrightarrow> cleanApiError a = quota_text)
   \<and> (\<not> sublist (lit ''insufficient_quota'') b \<and> sublist (lit ''Model did not return'') b
        \<longrightarrow> cleanApiError b = render_text)
   \<and> (\<not> sublist (lit ''insufficient_quota'') c \<and> \<not> sublist (lit ''Model did not return'') c
        \<and> prefix (lit ''{'') (trim c)
        \<longrightarrow> cleanApiError c = unexpected_text)
   \<and> (\<not> sublist (lit ''insufficient_quota'') d \<and> \<not> sublist (lit ''Model did not return'') d
        \<and> \<not> prefix (lit ''{'') (trim d)
        \<longrightarrow> cleanApiError d = d)"
  by (simp add: cleanApiError_def startsWith_def includes_js_iff_sublist)

text \<open>
  One message for each case: the upstream quota refusal, the two serialised error
  objects, and the client's own blank-narrative message.
\<close>

theorem cleanApiError_cases_witness:
  "cleanApiError quota_refusal = quota_text
   \<and> cleanApiError retry_error_text = render_text
   \<and> cleanApiError validation_error_text = unexpected_text
   \<and> cleanApiError blank_narrative_message = blank_narrative_message"
  using cleanApiError_cases [of quota_refusal retry_error_text validation_error_text blank_narrative_message]
    quota_refusal_has_marker retry_error_text_facts validation_error_text_facts
    blank_narrative_message_facts
  by (simp add: includes_js_iff_sublist)

text \<open>
  Claim C9 as stated fails: the blank-narrative message has neither substring, and it
  is returned as it is, not replaced by any of the fixed texts.
\<close>

theorem other_message_unchanged:
  "\<not> sublist (lit ''insufficient_quota'') blank_narrative_message
   \<and> \<not> sublist (lit ''Model did not return'') blank_narrative_message
   \<and> cleanApiError blank_narrative_message = blank_narrative_message
   \<and> blank_narrative_message \<noteq> unexpected_text
   \<and> blank_narrative_message \<noteq> quota_text
   \<and> blank_narrative_message \<noteq> render_text"
proof -
  have "blank_narrative_message \<noteq> unexpected_text"
    and "blank_narrative_message \<noteq> quota_text"
    and "blank_narrative_message \<noteq> render_text"
    by (simp_all add: blank_narrative_message_def unexpected_text_def quota_text_def
        render_text_def lit_def)
  with blank_narrative_message_facts show ?thesis
    by (simp add: cleanApiError_def startsWith_def includes_js_iff_sublist [symmetric])
qed


section \<open>The two other variants of the handler\<close>

text \<open>
  The variants check the environment first, turn an unparseable request body into an
  empty object, and guard the parse of the content; the second one prefixes the
  upstream's error text, the third one has its own \<open>catch\<close> answer and marker message.
\<close>

lemma part_001_missing_key:
  "key_missing ev \<Longrightarrow>
   POST_part_001 rt ev fetch req =
     \<lparr>response = \<lparr>status = 500,
                   json = JObj [(lit ''error'', JStr (lit ''Missing OPENAI_API_KEY in .env.local''))]\<rparr>,
      upstream_calls = []\<rparr>"
  by (simp add: POST_part_001_def POST_part_001_try_def NextResponse_json_def error_body_def
      missing_key_message_def)

lemma part_001_unparseable_request_rejected:
  assumes "\<not> key_missing ev" and "req_json rt req = Inl err"
  shows "POST_part_001 rt ev fetch req =
           \<lparr>response = \<lparr>status = 400,
                         json = JObj [(lit ''error'', JStr (lit ''Please provide a longer narrative.''))]\<rparr>,
            upstream_calls = []\<rparr>"
  using assms
  by (simp add: POST_part_001_def POST_part_001_try_def req_json_or_empty_def destructure_def
      flow_rejected_def NextResponse_json_def error_body_def validation_message_def)

lemma part_001_null_body_throws:
  assumes "\<not> key_missing ev" and "req_json rt req = Inr JNull"
  shows "response (POST_part_001 rt ev fetch req) =
           \<lparr>status = 500,
            json = JObj [(lit ''error'', JStr (destructure_message rt JNull (lit ''flow'')))]\<rparr>"
  using assms
  by (simp add: POST_part_001_def POST_part_001_try_def req_json_or_empty_def destructure_def
      catch_response_def TypeError_def NextResponse_json_def error_body_def)

lemma part_001_upstream_refusal:
  assumes "\<not> key_missing ev" and "req_json rt req = Inr body" and "\<not> nullish body"
    and "get_prop body (lit ''flow'') = JStr flow" and "10 \<le> length (trim flow)"
    and "fetch (chat_request ev (lit ''gpt-4o-mini'') (user_prompt flow)) = Inr resp"
    and "\<not> up_ok resp" and "up_body resp = Inr t"
  shows "response (POST_part_001 rt ev fetch req) =
           \<lparr>status = 500,
            json = JObj [(lit ''error'',
                          JStr (lit ''OpenAI error ('' @ decimal (up_status resp) @ lit ''): '' @ t))]\<rparr>"
    and "sublist t (lit ''OpenAI error ('' @ decimal (up_status resp) @ lit ''): '' @ t)"
proof -
  show "response (POST_part_001 rt ev fetch req) =
           \<lparr>status = 500,
            json = JObj [(lit ''error'',
                          JStr (lit ''OpenAI error ('' @ decimal (up_status resp) @ lit ''): '' @ t))]\<rparr>"
    using assms
    by (simp add: POST_part_001_def POST_part_001_try_def req_json_or_empty_def destructure_def
        long_flow_accepted resp_text_def openai_error_text_def NextResponse_json_def
        error_body_def)
  have "sublist t ((lit ''OpenAI error ('' @ decimal (up_status resp) @ lit ''): '') @ t @ [])"
    by (rule sublist_appendI)
  then show "sublist t (lit ''OpenAI error ('' @ decimal (up_status resp) @ lit ''): '' @ t)"
    by simp
qed

lemma part_001_unparseable_content_fixed:
  assumes "\<not> key_missing ev" and "req_json rt req = Inr body" and "\<not> nullish body"
    and "get_prop body (lit ''flow'') = JStr flow" and "10 \<le> length (trim flow)"
    and "fetch (chat_request ev (lit ''gpt-4o-mini'') (user_prompt flow)) = Inr resp"
    and "up_ok resp" and "resp_json rt resp = Inr data"
    and "JSON_parse rt (to_string rt (content_of data)) = Inl err"
  shows "response (POST_part_001 rt ev fetch req) =
           \<lparr>status = 500,
            json = JObj [(lit ''error'', JStr (lit ''Model did not return valid JSON.''))]\<rparr>"
  using assms
  by (simp add: POST_part_001_def POST_part_001_try_def req_json_or_empty_def destructure_def
      long_flow_accepted NextResponse_json_def error_body_def invalid_json_message_def)

text \<open>The prose completion again, and a status code in the prefixed error text.\<close>

lemma part_001_prose_content_answer:
  "response (POST_part_001 demo_runtime demo_env (answering 200 doc_completion_prose)
               (request_of doc_flow)) =
     \<lparr>status = 500, json = JObj [(lit ''error'', JStr (lit ''Model did not return valid JSON.''))]\<rparr>"
proof -
  have k: "\<not> key_missing demo_env"
    by (simp add: key_missing_def demo_env_def lit_def)
  have ok: "up_ok \<lparr>up_status = 200, up_body = Inr doc_completion_prose\<rparr>"
    by (simp add: demo_ok)
  have p: "JSON_parse demo_runtime (to_string demo_runtime (content_of val_completion_prose)) =
             Inl (SyntaxError (lit ''Unexpected token in JSON''))"
    by (simp add: demo_content_prose)
  show ?thesis
    by (rule part_001_unparseable_content_fixed
          [where fetch = "answering 200 doc_completion_prose",
           OF k demo_parse_flow demo_flow_present demo_flow_field demo_flow_length demo_answer ok
             demo_json_prose p])
qed

lemma openai_error_text_429: "openai_error_text 429 t = lit ''OpenAI error (429): '' @ t"
  by (simp add: openai_error_text_def decimal.simps lit_def)

lemma part_002_unparseable_content_fixed:
  assumes "\<not> key_missing ev" and "req_json rt req = Inr body" and "\<not> nullish body"
    and "get_prop body (lit ''flow'') = JStr flow" and "10 \<le> length (trim flow)"
    and "create \<lparr>api_key = the (OPENAI_API_KEY ev),
                  params = chat_payload (model_or (OPENAI_MODEL ev) (lit ''gpt-4o-mini''))
                             (user_prompt (trim flow))\<rparr> = Inr resp"
    and "JSON_parse rt (to_string rt (content_of resp)) = Inl err"
  shows "response (POST_part_002 rt ev create req) =
           \<lparr>status = 500,
            json = JObj [(lit ''error'', JStr (lit ''Model did not return valid JSON.''))]\<rparr>"
  using assms
  by (cases "OPENAI_API_KEY ev")
     (simp_all add: POST_part_002_def POST_part_002_try_def req_json_or_empty_def read_prop_def
      key_missing_def NextResponse_json_def error_body_def invalid_json_message_def lit_def)

lemma part_002_catch:
  assumes "fst (POST_part_002_try rt ev create req) = Inl (ErrorObj name msg [])" and "msg \<noteq> []"
  shows "response (POST_part_002 rt ev create req) =
           \<lparr>status = 500,
            json = JObj [(lit ''error'', JStr (lit ''Server error'')), (lit ''detail'', JStr msg)]\<rparr>"
  using assms
  by (cases "POST_part_002_try rt ev create req")
     (simp add: POST_part_002_def catch_response_part_002_def NextResponse_json_def js_or_def
      opt_get_def lit_def)

lemma part_002_unmarked_diagram:
  assumes "\<not> key_missing ev" and "req_json rt req = Inr body" and "\<not> nullish body"
    and "get_prop body (lit ''flow'') = JStr flow" and "10 \<le> length (trim flow)"
    and "create \<lparr>api_key = the (OPENAI_API_KEY ev),
                  params = chat_payload (model_or (OPENAI_MODEL ev) (lit ''gpt-4o-mini''))
                             (user_prompt (trim flow))\<rparr> = Inr resp"
    and "JSON_parse rt (to_string rt (content_of resp)) = Inr parsed"
    and "\<not> nullish parsed"
    and "\<And>m. get_prop parsed (lit ''mermaid'') = JStr m \<Longrightarrow> \<not> prefix (lit ''sequenceDiagram'') m"
  shows "response (POST_part_002 rt ev create req) =
           \<lparr>status = 500,
            json = JObj [(lit ''error'', JStr (lit ''Model did not return valid Mermaid.''))]\<rparr>"
proof -
  have "\<not> startsWith (case get_prop parsed (lit ''mermaid'') of JStr s \<Rightarrow> s | _ \<Rightarrow> [])
            grammar_marker"
    using assms(9)
    by (cases "get_prop parsed (lit ''mermaid'')")
       (simp_all add: startsWith_def grammar_marker_def, simp_all add: lit_def)
  with assms(1-8) show ?thesis
    by (cases "OPENAI_API_KEY ev")
       (simp_all add: POST_part_002_def POST_part_002_try_def req_json_or_empty_def read_prop_def
        key_missing_def text_field_present NextResponse_json_def error_body_def)
qed

lemma part_001_response_shapes:
  "(\<exists>m n. response (POST_part_001 rt ev fetch req) =
            \<lparr>status = 200, json = JObj [(lit ''mermaid'', JStr m), (lit ''notes'', JStr n)]\<rparr>)
   \<or> (\<exists>e. response (POST_part_001 rt ev fetch req) =
            \<lparr>status = 400, json = JObj [(lit ''error'', JStr e)]\<rparr>)
   \<or> (\<exists>e. response (POST_part_001 rt ev fetch req) =
            \<lparr>status = 500, json = JObj [(lit ''error'', JStr e)]\<rparr>)"
  by (auto simp: POST_part_001_def POST_part_001_try_def catch_response_def check_marker_def
      NextResponse_json_def error_body_def result_body_def Let_def
      split: sum.splits thrown.splits if_splits prod.splits)

lemma part_001_flow_missing_or_short_rejected:
  assumes "\<not> key_missing ev" and "req_json rt req = Inr body" and "\<not> nullish body"
    and "\<And>s. get_prop body (lit ''flow'') = JStr s \<Longrightarrow> length (trim s) < 10"
  shows "POST_part_001 rt ev fetch req =
           \<lparr>response = \<lparr>status = 400,
                         json = JObj [(lit ''error'', JStr (lit ''Please provide a longer narrative.''))]\<rparr>,
            upstream_calls = []\<rparr>"
proof -
  have "flow_rejected (get_prop body (lit ''flow''))"
    using assms(4) by (simp add: flow_rejected_iff)
  with assms(1-3) show ?thesis
    by (simp add: POST_part_001_def POST_part_001_try_def req_json_or_empty_def destructure_def
        NextResponse_json_def error_body_def validation_message_def)
qed

lemma part_002_flow_missing_or_short_rejected:
  assumes "\<not> key_missing ev" and "req_json rt req = Inr body" and "\<not> nullish body"
    and "\<And>s. get_prop body (lit ''flow'') = JStr s \<Longrightarrow> length (trim s) < 10"
  shows "POST_part_002 rt ev create req =
           \<lparr>response = \<lparr>status = 400,
                         json = JObj [(lit ''error'', JStr (lit ''Please provide a longer narrative.''))]\<rparr>,
            upstream_calls = []\<rparr>"
proof -
  have "length (if typeof (get_prop body (lit ''flow'')) = lit ''string''
                then trim (string_value (get_prop body (lit ''flow''))) else []) < 10"
    using assms(4) by (auto simp: typeof_string_iff)
  with assms(1-3) show ?thesis
    by (simp add: POST_part_002_def POST_part_002_try_def req_json_or_empty_def read_prop_def
        NextResponse_json_def error_body_def validation_message_def Let_def)
qed

lemma part_002_missing_key:
  "key_missing ev \<Longrightarrow>
   POST_part_002 rt ev create req =
     \<lparr>response = \<lparr>status = 500, json = JObj [(lit ''error'', JStr (lit ''Missing OPENAI_API_KEY''))]\<rparr>,
      upstream_calls = []\<rparr>"
  by (simp add: POST_part_002_def POST_part_002_try_def NextResponse_json_def error_body_def)

end
